theory Spec2Isabelle
  imports Complex_Main
begin

section \<open>JavaScript values\<close>

text \<open>
  The server is JavaScript.  Values that arrive as JSON (request bodies, the object that
  \<^verbatim>\<open>JSON.parse\<close> returns) are modelled by \<open>jsval\<close>.  Numbers are idealised as
  reals: rounding and overflow of IEEE doubles are not modelled, but the one place where
  the code divides (the similarity scorer) keeps JavaScript's result for a zero divisor,
  see \<open>jsnum\<close> below.
\<close>

datatype jsval =
    JUndefined
  | JNull
  | JBool bool
  | JNum real
  | JStr string
  | JArr "jsval list"
  | JObj "(string \<times> jsval) list"

text \<open>Truthiness, as used by \<^verbatim>\<open>if (x)\<close> and \<^verbatim>\<open>x || y\<close>.\<close>

fun truthy :: "jsval \<Rightarrow> bool" where
  "truthy JUndefined = False"
| "truthy JNull = False"
| "truthy (JBool b) = b"
| "truthy (JNum r) = (r \<noteq> 0)"
| "truthy (JStr s) = (s \<noteq> [])"
| "truthy (JArr xs) = True"
| "truthy (JObj kvs) = True"

text \<open>\<^verbatim>\<open>a || b\<close>\<close>

definition js_or :: "jsval \<Rightarrow> jsval \<Rightarrow> jsval" where
  "js_or a b = (if truthy a then a else b)"

datatype js_error = SyntaxError | TypeError | ReferenceError | Error string

text \<open>
  Property read \<^verbatim>\<open>v.k\<close>: it throws a TypeError on \<^verbatim>\<open>null\<close> and
  \<^verbatim>\<open>undefined\<close>, looks the key up in an object, and yields \<^verbatim>\<open>undefined\<close>
  for a key that an object or a primitive does not have.
\<close>

fun getProp :: "jsval \<Rightarrow> string \<Rightarrow> js_error + jsval" where
  "getProp JUndefined k = Inl TypeError"
| "getProp JNull k = Inl TypeError"
| "getProp (JObj kvs) k = (case map_of kvs k of None \<Rightarrow> Inr JUndefined | Some v \<Rightarrow> Inr v)"
| "getProp v k = Inr JUndefined"

section \<open>JavaScript numbers\<close>

text \<open>
  A JavaScript number is an IEEE double: a finite value, an infinity or NaN (the sign
  of zero is not modelled).  The result of an operation on finite doubles is the exact
  result rounded to a double, or an infinity when it overflows.  How a real number is
  rounded is a parameter \<open>rnd\<close> of every operation below, so that nothing proved
  depends on it; zero is a double and therefore its own rounding.  Operations on NaN and
  on the infinities, and division by zero, follow the standard: \<^verbatim>\<open>0 / 0\<close> is NaN,
  \<^verbatim>\<open>x / 0\<close> an infinity, every comparison with NaN is false, and \<^verbatim>\<open>Math.max\<close>
  returns NaN when an argument is NaN.
\<close>

datatype jsnum = NaN | PosInf | NegInf | Num real

definition fl :: "(real \<Rightarrow> jsnum) \<Rightarrow> real \<Rightarrow> jsnum" where
  "fl rnd x = (if x = 0 then Num 0 else rnd x)"

text \<open>\<^verbatim>\<open>a + b\<close>\<close>

fun js_add :: "(real \<Rightarrow> jsnum) \<Rightarrow> jsnum \<Rightarrow> jsnum \<Rightarrow> jsnum" where
  "js_add rnd (Num x) (Num y) = fl rnd (x + y)"
| "js_add rnd NaN b = NaN"
| "js_add rnd a NaN = NaN"
| "js_add rnd PosInf NegInf = NaN"
| "js_add rnd NegInf PosInf = NaN"
| "js_add rnd PosInf b = PosInf"
| "js_add rnd NegInf b = NegInf"
| "js_add rnd (Num x) b = b"

text \<open>\<^verbatim>\<open>a - b\<close>\<close>

fun js_sub :: "(real \<Rightarrow> jsnum) \<Rightarrow> jsnum \<Rightarrow> jsnum \<Rightarrow> jsnum" where
  "js_sub rnd (Num x) (Num y) = fl rnd (x - y)"
| "js_sub rnd NaN b = NaN"
| "js_sub rnd a NaN = NaN"
| "js_sub rnd PosInf PosInf = NaN"
| "js_sub rnd NegInf NegInf = NaN"
| "js_sub rnd PosInf b = PosInf"
| "js_sub rnd NegInf b = NegInf"
| "js_sub rnd (Num x) PosInf = NegInf"
| "js_sub rnd (Num x) NegInf = PosInf"

text \<open>A finite number times an infinity.\<close>

definition infTimes :: "real \<Rightarrow> jsnum \<Rightarrow> jsnum" where
  "infTimes x i =
     (if x = 0 then NaN else if (0 < x) = (i = PosInf) then PosInf else NegInf)"

text \<open>\<^verbatim>\<open>a * b\<close>\<close>

fun js_mul :: "(real \<Rightarrow> jsnum) \<Rightarrow> jsnum \<Rightarrow> jsnum \<Rightarrow> jsnum" where
  "js_mul rnd (Num x) (Num y) = fl rnd (x * y)"
| "js_mul rnd NaN b = NaN"
| "js_mul rnd a NaN = NaN"
| "js_mul rnd (Num x) b = infTimes x b"
| "js_mul rnd a (Num y) = infTimes y a"
| "js_mul rnd a b = (if a = b then PosInf else NegInf)"

text \<open>\<^verbatim>\<open>a / b\<close>\<close>

fun js_div :: "(real \<Rightarrow> jsnum) \<Rightarrow> jsnum \<Rightarrow> jsnum \<Rightarrow> jsnum" where
  "js_div rnd (Num x) (Num y) =
     (if y = 0 then (if x = 0 then NaN else if 0 < x then PosInf else NegInf)
      else fl rnd (x / y))"
| "js_div rnd NaN b = NaN"
| "js_div rnd a NaN = NaN"
| "js_div rnd (Num x) b = Num 0"
| "js_div rnd a (Num y) = (if (0 \<le> y) = (a = PosInf) then PosInf else NegInf)"
| "js_div rnd a b = NaN"

text \<open>\<^verbatim>\<open>Math.sqrt(a)\<close>\<close>

fun js_sqrt :: "(real \<Rightarrow> jsnum) \<Rightarrow> jsnum \<Rightarrow> jsnum" where
  "js_sqrt rnd NaN = NaN"
| "js_sqrt rnd PosInf = PosInf"
| "js_sqrt rnd NegInf = NaN"
| "js_sqrt rnd (Num x) = (if x < 0 then NaN else fl rnd (sqrt x))"

text \<open>\<^verbatim>\<open>Math.max(0, x)\<close>\<close>

fun js_max0 :: "jsnum \<Rightarrow> jsnum" where
  "js_max0 NaN = NaN"
| "js_max0 PosInf = PosInf"
| "js_max0 NegInf = Num 0"
| "js_max0 (Num r) = Num (max 0 r)"

text \<open>\<^verbatim>\<open>Math.round(x)\<close>: the nearest integer, halves upwards.\<close>

fun js_round :: "jsnum \<Rightarrow> jsnum" where
  "js_round (Num r) = Num (of_int \<lfloor>r + 1 / 2\<rfloor>)"
| "js_round a = a"

text \<open>\<^verbatim>\<open>a > b\<close>\<close>

fun js_gt :: "jsnum \<Rightarrow> jsnum \<Rightarrow> bool" where
  "js_gt NaN b = False"
| "js_gt a NaN = False"
| "js_gt PosInf b = (b \<noteq> PosInf)"
| "js_gt NegInf b = False"
| "js_gt (Num x) PosInf = False"
| "js_gt (Num x) NegInf = True"
| "js_gt (Num x) (Num y) = (y < x)"

section \<open>Strings\<close>

text \<open>
  Strings are byte strings here; the case mapping and the white space are those of
  ASCII.
\<close>

definition toLowerChar :: "char \<Rightarrow> char" where
  "toLowerChar c =
     (if 65 \<le> (of_char c :: nat) \<and> (of_char c :: nat) \<le> 90
      then char_of (of_char c + (32::nat)) else c)"

definition toLowerCase :: "string \<Rightarrow> string" where
  "toLowerCase s = map toLowerChar s"

definition isSpace :: "char \<Rightarrow> bool" where
  "isSpace c = ((of_char c :: nat) \<in> set [32, 9, 10, 11, 12, 13])"

definition trim :: "string \<Rightarrow> string" where
  "trim s = rev (dropWhile isSpace (rev (dropWhile isSpace s)))"

definition isLower :: "char \<Rightarrow> bool" where
  "isLower c = (97 \<le> (of_char c :: nat) \<and> (of_char c :: nat) \<le> 122)"

definition isUpper :: "char \<Rightarrow> bool" where
  "isUpper c = (65 \<le> (of_char c :: nat) \<and> (of_char c :: nat) \<le> 90)"

definition isDigit :: "char \<Rightarrow> bool" where
  "isDigit c = (48 \<le> (of_char c :: nat) \<and> (of_char c :: nat) \<le> 57)"

text \<open>The decimal numeral of a number, as a template string prints it.\<close>

definition digitChar :: "nat \<Rightarrow> char" where
  "digitChar d = char_of (d + 48)"

fun string_of_nat :: "nat \<Rightarrow> string" where
  "string_of_nat n =
     (let last = [digitChar (n mod 10)]
      in if 10 \<le> n then string_of_nat (n div 10) @ last else last)"

declare string_of_nat.simps [simp del]

definition string_of_int :: "int \<Rightarrow> string" where
  "string_of_int i = (if i < 0 then CHR ''-'' # string_of_nat (nat (- i)) else string_of_nat (nat i))"

text \<open>
  \<^verbatim>\<open>text.match(/\{[\s\S]*\}/)\<close>, and the same pattern with square brackets for the
  array of questions: the match starts at the first opening character and, the star being
  greedy, ends at the last closing character after it; there is no match when no closing
  character follows the first opening one.
\<close>

definition jsonMatch :: "char \<Rightarrow> char \<Rightarrow> string \<Rightarrow> string option" where
  "jsonMatch opening closing text =
     (case dropWhile (\<lambda>c. c \<noteq> opening) text of
        [] \<Rightarrow> None
      | c # rest \<Rightarrow>
          (case rev (dropWhile (\<lambda>c. c \<noteq> closing) (rev rest)) of
             [] \<Rightarrow> None
           | body \<Rightarrow> Some (c # body)))"

section \<open>The progress aggregate (models/User: userSchema.methods.updateProgress)\<close>

text \<open>
  Dates are milliseconds since the epoch.  \<^verbatim>\<open>toDateString()\<close> prints the local
  calendar date; two instants print the same string exactly when they fall on the same
  local calendar day.  The model returns the number of that day.  The local time of the
  server is given by \<open>zone\<close>, the offset from UTC in milliseconds at each instant (it
  changes with daylight saving).
\<close>

definition toDateString :: "(int \<Rightarrow> int) \<Rightarrow> int \<Rightarrow> int" where
  "toDateString zone t = (t + zone t) div 86400000"

text \<open>A server whose local time is UTC.\<close>

definition utc :: "int \<Rightarrow> int" where
  "utc t = 0"

record progress =
  totalQuestions :: int
  correctAnswers :: int
  streakDays :: int
  lastActiveDate :: int
  points :: int

text \<open>
  \<^verbatim>\<open>updateProgress(isCorrect)\<close>.  The three \<^verbatim>\<open>new Date()\<close> of the source are
  one instant \<open>now\<close>; \<open>isCorrect\<close> is the truthiness of the argument.
\<close>

definition updateProgress :: "(int \<Rightarrow> int) \<Rightarrow> int \<Rightarrow> bool \<Rightarrow> progress \<Rightarrow> progress" where
  "updateProgress zone now isCorrect p =
    (let p1 = p\<lparr>totalQuestions := totalQuestions p + 1\<rparr>;
         p2 = (if isCorrect
               then p1\<lparr>correctAnswers := correctAnswers p1 + 1, points := points p1 + 10\<rparr>
               else p1);
         today = toDateString zone now;
         lastActive = toDateString zone (lastActiveDate p2);
         p3 = (if today = lastActive then p2
               else if lastActiveDate p2 + 86400000 \<ge> now
               then p2\<lparr>streakDays := streakDays p2 + 1\<rparr>
               else p2\<lparr>streakDays := 1\<rparr>)
     in p3\<lparr>lastActiveDate := now\<rparr>)"

text \<open>The schema defaults of a new account: all counters 0, last active at creation.\<close>

definition freshProgress :: "int \<Rightarrow> progress" where
  "freshProgress created =
     \<lparr>totalQuestions = 0, correctAnswers = 0, streakDays = 0,
      lastActiveDate = created, points = 0\<rparr>"

section \<open>Accounts (models/User)\<close>

datatype login_method = ByEmail | ByFace

text \<open>
  A document of the \<^verbatim>\<open>User\<close> collection.  \<open>uid\<close> is \<^verbatim>\<open>_id\<close>,
  \<open>faceDescriptor\<close> is \<open>None\<close> for \<^verbatim>\<open>null\<close>, \<open>password\<close> holds the hash.
  The collection is the list of its documents, in insertion order.
\<close>

record user =
  uid :: nat
  email :: string
  password :: string
  firstName :: string
  lastName :: string
  avatar :: "string option"
  faceDescriptor :: "real list option"
  preferences :: jsval
  progress :: progress
  isActive :: bool
  lastLogin :: int
  loginMethod :: login_method

type_synonym db = "user list"

text \<open>
  \<^verbatim>\<open>accuracyPercentage\<close>: the quotient and the product are rounded as doubles
  before \<^verbatim>\<open>Math.round\<close>.
\<close>

definition accuracyPercentage :: "(real \<Rightarrow> jsnum) \<Rightarrow> user \<Rightarrow> jsnum" where
  "accuracyPercentage rnd u =
     (if totalQuestions (progress u) = 0 then Num 0
      else js_round
             (js_mul rnd
                (js_div rnd (Num (real_of_int (correctAnswers (progress u))))
                   (Num (real_of_int (totalQuestions (progress u)))))
                (Num 100)))"

datatype user_stats = UserStats int int jsnum int int int

text \<open>\<^verbatim>\<open>getStats()\<close>: totalQuestions, correctAnswers, accuracy, streakDays, points, lastActive.\<close>

definition getStats :: "(real \<Rightarrow> jsnum) \<Rightarrow> user \<Rightarrow> user_stats" where
  "getStats rnd u =
     UserStats (totalQuestions (progress u)) (correctAnswers (progress u)) (accuracyPercentage rnd u)
       (streakDays (progress u)) (points (progress u)) (lastActiveDate (progress u))"

text \<open>\<^verbatim>\<open>user.updateProgress(isCorrect)\<close> on a document, followed by its \<^verbatim>\<open>save()\<close>.\<close>

definition userUpdateProgress :: "(int \<Rightarrow> int) \<Rightarrow> int \<Rightarrow> bool \<Rightarrow> user \<Rightarrow> user" where
  "userUpdateProgress zone now isCorrect u =
     u\<lparr>progress := updateProgress zone now isCorrect (progress u)\<rparr>"

text \<open>Writing a document back: the document with the same \<^verbatim>\<open>_id\<close> is replaced.\<close>

definition saveUser :: "user \<Rightarrow> db \<Rightarrow> db" where
  "saveUser u users = map (\<lambda>v. if uid v = uid u then u else v) users"

text \<open>\<^verbatim>\<open>User.findOne({ email })\<close> and \<^verbatim>\<open>User.findById(id)\<close>.\<close>

definition findOneByEmail :: "string \<Rightarrow> db \<Rightarrow> user option" where
  "findOneByEmail e users = find (\<lambda>u. email u = e) users"

definition findById :: "nat \<Rightarrow> db \<Rightarrow> user option" where
  "findById i users = find (\<lambda>u. uid u = i) users"

text \<open>A new \<^verbatim>\<open>_id\<close>: one that no document of the collection has.\<close>

definition newId :: "db \<Rightarrow> nat" where
  "newId users = Suc (foldr max (map uid users) 0)"

section \<open>What the routes call outside the repository\<close>

text \<open>
  The libraries and the platform are parameters of the model: the validators and
  sanitizers of express-validator (\<open>isEmail\<close>, \<open>normalizeEmail\<close>), bcryptjs
  (\<open>bcryptHash\<close>, \<open>bcryptCompare\<close>), the token issuer of the authentication
  middleware (\<open>generateToken\<close>), \<^verbatim>\<open>JSON.parse\<close> (\<open>None\<close> when it throws), the
  validators that Mongoose runs on a new document (\<open>schemaValid\<close>),
  \<^verbatim>\<open>Math.random()\<close> (the \<open>i\<close>-th draw of a request), the rounding of double
  arithmetic (\<open>roundDouble\<close>) and the offset of the server's local time from UTC at
  each instant (\<open>tzOffset\<close>).
\<close>

record env =
  isEmail :: "string \<Rightarrow> bool"
  normalizeEmail :: "string \<Rightarrow> string"
  bcryptHash :: "string \<Rightarrow> string"
  bcryptCompare :: "string \<Rightarrow> string \<Rightarrow> bool"
  generateToken :: "nat \<Rightarrow> string"
  jsonParse :: "string \<Rightarrow> jsval option"
  schemaValid :: "user \<Rightarrow> bool"
  mathRandom :: "nat \<Rightarrow> real"
  roundDouble :: "real \<Rightarrow> jsnum"
  tzOffset :: "int \<Rightarrow> int"

section \<open>Responses\<close>

text \<open>
  The envelope \<^verbatim>\<open>{status, message, errors, data}\<close> with its HTTP status code.
  \<open>errors\<close> lists the messages of the validators that failed.  The \<^verbatim>\<open>error\<close>
  field that the question routes add in development configuration is not modelled.
\<close>

record 'd response =
  code :: nat
  status :: string
  message :: "string option"
  errors :: "string list"
  data :: "'d option"

definition errorResponse :: "nat \<Rightarrow> string \<Rightarrow> 'd response" where
  "errorResponse c m = \<lparr>code = c, status = ''error'', message = Some m, errors = [], data = None\<rparr>"

definition validationFailed :: "string list \<Rightarrow> 'd response" where
  "validationFailed es =
     \<lparr>code = 400, status = ''error'', message = Some ''Validation failed'', errors = es, data = None\<rparr>"

definition successResponse :: "nat \<Rightarrow> string option \<Rightarrow> 'd \<Rightarrow> 'd response" where
  "successResponse c m d = \<lparr>code = c, status = ''success'', message = m, errors = [], data = Some d\<rparr>"

text \<open>The user object of a response: id, firstName, lastName, email, avatar, preferences, progress.\<close>

datatype user_view = UserView nat string string string "string option" jsval progress

definition userView :: "user \<Rightarrow> user_view" where
  "userView u = UserView (uid u) (firstName u) (lastName u) (email u) (avatar u) (preferences u) (progress u)"

text \<open>Data of the authentication routes: user, token and, for face login, the similarity.\<close>

datatype auth_data = AuthData user_view string "jsnum option"

section \<open>Vector similarity (routes/auth: calculateSimilarity, routes/faceRecognition: calculateFaceSimilarity)\<close>

text \<open>
  The vectors hold finite doubles.  The loop adds up the squared differences index by
  index; every subtraction, product and sum is rounded, as are the two square roots, the
  quotient and the final difference.
\<close>

definition sumSquaredDiff :: "(real \<Rightarrow> jsnum) \<Rightarrow> real list \<Rightarrow> real list \<Rightarrow> jsnum" where
  "sumSquaredDiff rnd descriptor1 descriptor2 =
     foldl (\<lambda>s i. let diff = js_sub rnd (Num (descriptor1 ! i)) (Num (descriptor2 ! i))
                  in js_add rnd s (js_mul rnd diff diff))
       (Num 0) [0..<length descriptor1]"

definition calculateSimilarity :: "(real \<Rightarrow> jsnum) \<Rightarrow> real list \<Rightarrow> real list \<Rightarrow> jsnum" where
  "calculateSimilarity rnd descriptor1 descriptor2 =
     (if length descriptor1 \<noteq> length descriptor2 then Num 0
      else let distance = js_sqrt rnd (sumSquaredDiff rnd descriptor1 descriptor2)
           in js_max0
                (js_sub rnd (Num 1)
                   (js_div rnd distance (js_sqrt rnd (Num (real (length descriptor1)))))))"

definition calculateFaceSimilarity :: "(real \<Rightarrow> jsnum) \<Rightarrow> real list \<Rightarrow> real list \<Rightarrow> jsnum" where
  "calculateFaceSimilarity rnd descriptor1 descriptor2 =
     (if length descriptor1 \<noteq> length descriptor2 then Num 0
      else let distance = js_sqrt rnd (sumSquaredDiff rnd descriptor1 descriptor2)
           in js_max0
                (js_sub rnd (Num 1)
                   (js_div rnd distance (js_sqrt rnd (Num (real (length descriptor1)))))))"

section \<open>routes/auth\<close>

text \<open>
  Request bodies carry strings (an absent field is the empty string, which fails the same
  validators) and, for \<^verbatim>\<open>faceDescriptor\<close>, an array of numbers or nothing.
\<close>

record register_body =
  reg_firstName :: string
  reg_lastName :: string
  reg_email :: string
  reg_password :: string
  reg_preferences :: jsval
  reg_faceDescriptor :: "real list option"

text \<open>
  \<^verbatim>\<open>/^(?=.*[a-z])(?=.*[A-Z])(?=.*\d)/\<close>: a lower-case letter, an upper-case letter and
  a digit, each before the first line break (the dot does not match one).
\<close>

definition passwordPattern :: "string \<Rightarrow> bool" where
  "passwordPattern pw =
     (let line = takeWhile (\<lambda>c. c \<noteq> CHR 0x0A \<and> c \<noteq> CHR 0x0D) pw
      in list_ex isLower line \<and> list_ex isUpper line \<and> list_ex isDigit line)"

definition nameLengthOk :: "string \<Rightarrow> bool" where
  "nameLengthOk s = (2 \<le> length (trim s) \<and> length (trim s) \<le> 50)"

definition registerValidation :: "env \<Rightarrow> register_body \<Rightarrow> string list" where
  "registerValidation E b =
     (if nameLengthOk (reg_firstName b) then []
      else [''First name must be between 2 and 50 characters'']) @
     (if nameLengthOk (reg_lastName b) then []
      else [''Last name must be between 2 and 50 characters'']) @
     (if isEmail E (reg_email b) then [] else [''Please provide a valid email'']) @
     (if 6 \<le> length (reg_password b) then []
      else [''Password must be at least 6 characters long'']) @
     (if passwordPattern (reg_password b) then []
      else [''Password must contain at least one uppercase letter, one lowercase letter, and one number''])"

text \<open>
  The nested \<^verbatim>\<open>preferences\<close> of the schema: Mongoose keeps the paths of the schema
  and fills those that the request leaves out with their defaults.  The values are kept as
  sent; their casting and validation belong to \<open>schemaValid\<close>.
\<close>

definition preferenceDefaults :: "(string \<times> jsval) list" where
  "preferenceDefaults =
     [(''subjects'', JArr []),
      (''learningPace'', JStr ''moderate''),
      (''difficultyLevel'', JStr ''beginner''),
      (''preferredQuestionTypes'', JArr []),
      (''dailyGoal'', JNum 10)]"

text \<open>
  The fields that a value offers to the nested path: those of an object, none for an
  array (its indices are no paths of the schema); any other value cannot be set there and
  Mongoose rejects the document.
\<close>

definition preferenceFields :: "jsval \<Rightarrow> (string \<times> jsval) list option" where
  "preferenceFields v = (case v of JObj kvs \<Rightarrow> Some kvs | JArr xs \<Rightarrow> Some [] | other \<Rightarrow> None)"

definition withPreferenceDefaults :: "(string \<times> jsval) list \<Rightarrow> jsval" where
  "withPreferenceDefaults kvs =
     JObj (map (\<lambda>(k, d). (k, case map_of kvs k of
                                  None \<Rightarrow> d
                                | Some v \<Rightarrow> if v = JUndefined then d else v))
             preferenceDefaults)"

text \<open>
  The document that \<^verbatim>\<open>User.create\<close> builds from the fields of the request and
  \<^verbatim>\<open>preferences || {}\<close> (\<open>prefs\<close>, an object): the schema lower-cases and trims
  the email, trims the names and fills the defaults.  Mongoose validates the document,
  then the pre-save hook (\<open>hashPassword\<close>) replaces the password by its hash.
\<close>

definition newUser ::
  "env \<Rightarrow> int \<Rightarrow> register_body \<Rightarrow> string \<Rightarrow> (string \<times> jsval) list \<Rightarrow> db \<Rightarrow> user" where
  "newUser E now b em prefs users =
     \<lparr>uid = newId users,
      email = toLowerCase (trim em),
      password = reg_password b,
      firstName = trim (reg_firstName b),
      lastName = trim (reg_lastName b),
      avatar = None,
      faceDescriptor = reg_faceDescriptor b,
      preferences = withPreferenceDefaults prefs,
      progress = freshProgress now,
      isActive = True,
      lastLogin = now,
      loginMethod = ByEmail\<rparr>"

definition hashPassword :: "env \<Rightarrow> user \<Rightarrow> user" where
  "hashPassword E u = u\<lparr>password := bcryptHash E (password u)\<rparr>"

text \<open>
  POST /api/auth/register.  \<open>Inl\<close> is an exception that leaves the handler (the
  error middleware is not part of the sources); the collection is then as it was.
\<close>

definition register :: "env \<Rightarrow> int \<Rightarrow> register_body \<Rightarrow> db \<Rightarrow> js_error + (auth_data response \<times> db)" where
  "register E now b users =
     (case registerValidation E b of
        e # es \<Rightarrow> Inr (validationFailed (e # es), users)
      | [] \<Rightarrow>
         (let em = normalizeEmail E (reg_email b) in
          case findOneByEmail em users of
            Some existingUser \<Rightarrow> Inr (errorResponse 400 ''User with this email already exists'', users)
          | None \<Rightarrow>
             (case preferenceFields (js_or (reg_preferences b) (JObj [])) of
                None \<Rightarrow> Inl (Error ''ValidationError'')
              | Some prefs \<Rightarrow>
                  (let doc = newUser E now b em prefs users in
                   if \<not> schemaValid E doc then Inl (Error ''ValidationError'')
                   else (let u = hashPassword E doc
                         in Inr (successResponse 201 (Some ''User registered successfully'')
                                   (AuthData (userView u) (generateToken E (uid u)) None),
                                 users @ [u]))))))"

record login_body =
  login_email :: string
  login_password :: string

definition loginValidation :: "env \<Rightarrow> login_body \<Rightarrow> string list" where
  "loginValidation E b =
     (if isEmail E (login_email b) then [] else [''Please provide a valid email'']) @
     (if login_password b \<noteq> [] then [] else [''Password is required''])"

text \<open>POST /api/auth/login\<close>

definition login :: "env \<Rightarrow> int \<Rightarrow> login_body \<Rightarrow> db \<Rightarrow> auth_data response \<times> db" where
  "login E now b users =
     (case loginValidation E b of
        e # es \<Rightarrow> (validationFailed (e # es), users)
      | [] \<Rightarrow>
         (case findOneByEmail (normalizeEmail E (login_email b)) users of
            None \<Rightarrow> (errorResponse 401 ''Invalid credentials'', users)
          | Some u \<Rightarrow>
              if \<not> isActive u then (errorResponse 401 ''Account is deactivated'', users)
              else if \<not> bcryptCompare E (login_password b) (password u)
              then (errorResponse 401 ''Invalid credentials'', users)
              else (let u' = u\<lparr>lastLogin := now, loginMethod := ByEmail\<rparr>
                    in (successResponse 200 (Some ''Login successful'')
                          (AuthData (userView u') (generateToken E (uid u')) None),
                        saveUser u' users))))"

text \<open>
  \<^verbatim>\<open>const threshold = 0.6\<close>.  The literal is the double nearest to 6/10, which lies
  below it with no double in between: a double exceeds the one exactly when it exceeds
  the other.
\<close>

definition threshold :: jsnum where
  "threshold = Num (6 / 10)"

text \<open>
  The \<^verbatim>\<open>for (const user of users)\<close> loop of face login, with its two variables
  \<^verbatim>\<open>matchedUser\<close> and \<^verbatim>\<open>bestMatch\<close>.
\<close>

fun bestMatchLoop ::
  "(real \<Rightarrow> jsnum) \<Rightarrow> real list \<Rightarrow> user list \<Rightarrow> user option \<times> jsnum \<Rightarrow> user option \<times> jsnum" where
  "bestMatchLoop rnd q [] acc = acc"
| "bestMatchLoop rnd q (u # us) (matchedUser, bestMatch) =
     (case faceDescriptor u of
        None \<Rightarrow> bestMatchLoop rnd q us (matchedUser, bestMatch)
      | Some d \<Rightarrow>
          if length d = length q
          then (let similarity = calculateSimilarity rnd q d
                in if js_gt similarity threshold \<and> js_gt similarity bestMatch
                   then bestMatchLoop rnd q us (Some u, similarity)
                   else bestMatchLoop rnd q us (matchedUser, bestMatch))
          else bestMatchLoop rnd q us (matchedUser, bestMatch))"

text \<open>\<^verbatim>\<open>User.find({ faceDescriptor: { $exists: true, $ne: null } })\<close>\<close>

definition usersWithFace :: "db \<Rightarrow> user list" where
  "usersWithFace users = filter (\<lambda>u. faceDescriptor u \<noteq> None) users"

text \<open>POST /api/auth/face-login; the body's descriptor is \<open>None\<close> when absent or no array.\<close>

definition faceLogin :: "env \<Rightarrow> int \<Rightarrow> real list option \<Rightarrow> db \<Rightarrow> auth_data response \<times> db" where
  "faceLogin E now body users =
     (case body of
        None \<Rightarrow> (errorResponse 400 ''Face descriptor is required'', users)
      | Some q \<Rightarrow>
         (case bestMatchLoop (roundDouble E) q (usersWithFace users) (None, Num 0) of
            (None, bestMatch) \<Rightarrow> (errorResponse 401 ''Face not recognized'', users)
          | (Some m, bestMatch) \<Rightarrow>
              if \<not> isActive m then (errorResponse 401 ''Account is deactivated'', users)
              else (let m' = m\<lparr>lastLogin := now, loginMethod := ByFace\<rparr>
                    in (successResponse 200 (Some ''Face login successful'')
                          (AuthData (userView m') (generateToken E (uid m')) (Some bestMatch)),
                        saveUser m' users))))"

section \<open>The best-match selector as the specification words it\<close>

text \<open>
  The specification's contract for face login, to be compared with \<open>bestMatchLoop\<close>;
  the similarity is the one that the scorer computes, in the same arithmetic.  Among the
  accounts whose stored vector has the length of the query (\<open>eligible\<close>),
  take those whose similarity strictly exceeds the threshold (\<open>clears\<close>), and of these
  the first in collection order that none of them exceeds.
\<close>

definition eligible :: "real list \<Rightarrow> user \<Rightarrow> bool" where
  "eligible q u = (case faceDescriptor u of None \<Rightarrow> False | Some d \<Rightarrow> length d = length q)"

definition score :: "(real \<Rightarrow> jsnum) \<Rightarrow> real list \<Rightarrow> user \<Rightarrow> jsnum" where
  "score rnd q u =
     (case faceDescriptor u of None \<Rightarrow> Num 0 | Some d \<Rightarrow> calculateSimilarity rnd q d)"

definition clears :: "(real \<Rightarrow> jsnum) \<Rightarrow> real list \<Rightarrow> user \<Rightarrow> bool" where
  "clears rnd q u = (eligible q u \<and> js_gt (score rnd q u) threshold)"

definition bestMatchSpec :: "(real \<Rightarrow> jsnum) \<Rightarrow> real list \<Rightarrow> user list \<Rightarrow> user option" where
  "bestMatchSpec rnd q users =
     find (\<lambda>u. clears rnd q u \<and>
               list_all (\<lambda>v. \<not> (clears rnd q v \<and> js_gt (score rnd q v) (score rnd q u))) users)
       users"

section \<open>Invariants of the collection\<close>

text \<open>Every stored face descriptor has 128 components.\<close>

definition descriptorInvariant :: "db \<Rightarrow> bool" where
  "descriptorInvariant users =
     list_all (\<lambda>u. case faceDescriptor u of None \<Rightarrow> True | Some d \<Rightarrow> length d = 128) users"



section \<open>routes/user: POST /api/user/face-register\<close>

text \<open>The user object of the face routes: id, firstName, lastName, email, avatar.\<close>

datatype profile_view = ProfileView nat string string string "string option"

definition profileView :: "user \<Rightarrow> profile_view" where
  "profileView u = ProfileView (uid u) (firstName u) (lastName u) (email u) (avatar u)"

text \<open>
  \<open>reqUserId\<close> is \<^verbatim>\<open>req.user.id\<close>, set by the authentication middleware.  The
  route stores the array of the body as it is.  When no document has the id,
  \<^verbatim>\<open>findByIdAndUpdate\<close> returns \<^verbatim>\<open>null\<close> and reading \<^verbatim>\<open>user._id\<close> throws.
\<close>

definition userFaceRegister :: "nat \<Rightarrow> real list option \<Rightarrow> db \<Rightarrow> js_error + (profile_view response \<times> db)" where
  "userFaceRegister reqUserId body users =
     (case body of
        None \<Rightarrow> Inr (errorResponse 400 ''Face descriptor is required and must be an array'', users)
      | Some d \<Rightarrow>
         (case findById reqUserId users of
            None \<Rightarrow> Inl TypeError
          | Some u \<Rightarrow>
              (let u' = u\<lparr>faceDescriptor := Some d\<rparr>
               in Inr (successResponse 200 (Some ''Face registered successfully'') (profileView u'),
                       saveUser u' users))))"

section \<open>routes/faceRecognition\<close>

record face_data =
  fd_count :: nat
  fd_descriptor :: "real list"
  fd_confidence :: real

text \<open>
  \<^verbatim>\<open>simulateFaceDetection\<close>: 128 draws of \<^verbatim>\<open>Math.random() * 2 - 1\<close>, one face,
  and a confidence from one more draw.
\<close>

definition simulateFaceDetection :: "env \<Rightarrow> face_data" where
  "simulateFaceDetection E =
     \<lparr>fd_count = 1,
      fd_descriptor = map (\<lambda>i. mathRandom E i * 2 - 1) [0..<128],
      fd_confidence = 95 / 100 + mathRandom E 128 * (5 / 100)\<rparr>"

text \<open>Data of the route: the user, the confidence and \<^verbatim>\<open>descriptorLength\<close>.\<close>

datatype face_register_data = FaceRegisterData profile_view real nat

text \<open>
  POST /api/face-recognition/register; \<open>file\<close> is the path of the uploaded image,
  \<open>None\<close> when the request has no file.  The files on disk are not modelled.
\<close>

definition faceRecognitionRegister ::
  "env \<Rightarrow> nat \<Rightarrow> string option \<Rightarrow> db \<Rightarrow> js_error + (face_register_data response \<times> db)" where
  "faceRecognitionRegister E reqUserId file users =
     (case file of
        None \<Rightarrow> Inr (errorResponse 400 ''No image file provided'', users)
      | Some path \<Rightarrow>
         (let faceData = simulateFaceDetection E in
          if fd_count faceData = 0
          then Inr (errorResponse 400 ''No face detected in the image'', users)
          else if fd_count faceData > 1
          then Inr (errorResponse 400
                 ''Multiple faces detected. Please upload an image with only one face.'', users)
          else (case findById reqUserId users of
                  None \<Rightarrow> Inl TypeError
                | Some u \<Rightarrow>
                    (let u' = u\<lparr>faceDescriptor := Some (fd_descriptor faceData), avatar := Some path\<rparr>
                     in Inr (successResponse 200 (Some ''Face registered successfully'')
                               (FaceRegisterData (profileView u') (fd_confidence faceData)
                                  (length (fd_descriptor faceData))),
                             saveUser u' users)))))"

section \<open>routes/question\<close>

record evaluation =
  ev_isCorrect :: jsval
  ev_feedback :: jsval
  ev_explanation :: jsval

text \<open>The three property reads of the result and the defaults \<^verbatim>\<open>|| ...\<close>.\<close>

definition readEvaluation :: "jsval \<Rightarrow> js_error + evaluation" where
  "readEvaluation result =
     (case getProp result ''isCorrect'' of
        Inl e \<Rightarrow> Inl e
      | Inr c \<Rightarrow>
         (case getProp result ''feedback'' of
            Inl e \<Rightarrow> Inl e
          | Inr f \<Rightarrow>
             (case getProp result ''explanation'' of
                Inl e \<Rightarrow> Inl e
              | Inr x \<Rightarrow>
                  Inr \<lparr>ev_isCorrect = js_or c (JBool False),
                       ev_feedback = js_or f (JStr ''No feedback provided''),
                       ev_explanation = js_or x (JStr ''No explanation provided'')\<rparr>)))"

text \<open>The \<^verbatim>\<open>try\<close> block of \<^verbatim>\<open>parseCodeEvaluation\<close>; \<open>Inl\<close> is what it throws.\<close>

definition parseCodeEvaluationTry :: "env \<Rightarrow> string \<Rightarrow> js_error + evaluation" where
  "parseCodeEvaluationTry E text =
     (case jsonMatch CHR ''{'' CHR ''}'' text of
        None \<Rightarrow>
          Inr \<lparr>ev_isCorrect = JBool False,
               ev_feedback = JStr ''Unable to evaluate answer'',
               ev_explanation = JStr ''Evaluation failed''\<rparr>
      | Some m \<Rightarrow>
         (case jsonParse E m of
            None \<Rightarrow> Inl SyntaxError
          | Some result \<Rightarrow> readEvaluation result))"

text \<open>\<^verbatim>\<open>parseCodeEvaluation\<close>: the \<^verbatim>\<open>try\<close> block and its \<^verbatim>\<open>catch\<close>.\<close>

definition parseCodeEvaluation :: "env \<Rightarrow> string \<Rightarrow> evaluation" where
  "parseCodeEvaluation E text =
     (case parseCodeEvaluationTry E text of
        Inr r \<Rightarrow> r
      | Inl error \<Rightarrow>
          \<lparr>ev_isCorrect = JBool False,
           ev_feedback = JStr ''Error evaluating answer'',
           ev_explanation = JStr ''Evaluation failed due to parsing error''\<rparr>)"

definition parseSQLEvaluationTry :: "env \<Rightarrow> string \<Rightarrow> js_error + evaluation" where
  "parseSQLEvaluationTry E text =
     (case jsonMatch CHR ''{'' CHR ''}'' text of
        None \<Rightarrow>
          Inr \<lparr>ev_isCorrect = JBool False,
               ev_feedback = JStr ''Unable to evaluate SQL answer'',
               ev_explanation = JStr ''Evaluation failed''\<rparr>
      | Some m \<Rightarrow>
         (case jsonParse E m of
            None \<Rightarrow> Inl SyntaxError
          | Some result \<Rightarrow> readEvaluation result))"

definition parseSQLEvaluation :: "env \<Rightarrow> string \<Rightarrow> evaluation" where
  "parseSQLEvaluation E text =
     (case parseSQLEvaluationTry E text of
        Inr r \<Rightarrow> r
      | Inl error \<Rightarrow>
          \<lparr>ev_isCorrect = JBool False,
           ev_feedback = JStr ''Error evaluating SQL answer'',
           ev_explanation = JStr ''Evaluation failed due to parsing error''\<rparr>)"

text \<open>A property read that cannot throw any more (the value is known not to be null).\<close>

definition propOf :: "jsval \<Rightarrow> string \<Rightarrow> jsval" where
  "propOf v k = (case getProp v k of Inr x \<Rightarrow> x | Inl e \<Rightarrow> JUndefined)"

text \<open>The callback of \<^verbatim>\<open>questions.map\<close>; the first read, \<^verbatim>\<open>q.id\<close>, throws on null.\<close>

definition cleanQuestion :: "int \<Rightarrow> string \<Rightarrow> jsval \<Rightarrow> nat \<Rightarrow> js_error + jsval" where
  "cleanQuestion now questionType q index =
     (case getProp q ''id'' of
        Inl e \<Rightarrow> Inl e
      | Inr i \<Rightarrow>
          Inr (JObj
            [(''id'', js_or i (JStr (''q_'' @ string_of_int now @ ''_'' @ string_of_nat index))),
             (''question'', propOf q ''question''),
             (''options'', js_or (propOf q ''options'') (JArr [])),
             (''correctAnswer'', propOf q ''correctAnswer''),
             (''explanation'', js_or (propOf q ''explanation'') (JStr [])),
             (''language'', js_or (propOf q ''language'') (JStr ''python'')),
             (''starterCode'', js_or (propOf q ''starterCode'') (JStr [])),
             (''testCases'', js_or (propOf q ''testCases'') (JArr [])),
             (''type'', JStr questionType)]))"

fun mapQuestions :: "int \<Rightarrow> string \<Rightarrow> jsval list \<Rightarrow> nat \<Rightarrow> js_error + jsval list" where
  "mapQuestions now questionType [] index = Inr []"
| "mapQuestions now questionType (q # qs) index =
     (case cleanQuestion now questionType q index of
        Inl e \<Rightarrow> Inl e
      | Inr c \<Rightarrow>
         (case mapQuestions now questionType qs (Suc index) of
            Inl e \<Rightarrow> Inl e
          | Inr cs \<Rightarrow> Inr (c # cs)))"

definition parseGeneratedQuestionsTry :: "env \<Rightarrow> int \<Rightarrow> string \<Rightarrow> string \<Rightarrow> js_error + jsval list" where
  "parseGeneratedQuestionsTry E now text questionType =
     (case jsonMatch CHR ''['' CHR '']'' text of
        None \<Rightarrow> Inl (Error ''No valid JSON found in response'')
      | Some m \<Rightarrow>
         (case jsonParse E m of
            None \<Rightarrow> Inl SyntaxError
          | Some (JArr questions) \<Rightarrow> mapQuestions now questionType questions 0
          | Some other \<Rightarrow> Inl TypeError))"

definition parseGeneratedQuestions :: "env \<Rightarrow> int \<Rightarrow> string \<Rightarrow> string \<Rightarrow> js_error + jsval list" where
  "parseGeneratedQuestions E now text questionType =
     (case parseGeneratedQuestionsTry E now text questionType of
        Inr questions \<Rightarrow> Inr questions
      | Inl error \<Rightarrow> Inl (Error ''Failed to parse generated questions''))"

text \<open>
  The external generator is called with a prompt that the route builds from the request;
  what it answers is not a function of the model, so each request carries the text that
  the generator returns for it (\<open>ext\<close>), \<open>None\<close> when the call fails.  The prompt
  builders only feed that call and are left out.
\<close>

record generate_body =
  gen_subject :: string
  gen_topic :: string
  gen_questionType :: string
  gen_difficulty :: string
  gen_count :: "int option"

definition questionTypes :: "string list" where
  "questionTypes = [''MCQ'', ''coding'', ''network'', ''sql'', ''chatbot'']"

definition difficultyLevels :: "string list" where
  "difficultyLevels = [''beginner'', ''intermediate'', ''advanced'']"

text \<open>\<open>gen_count\<close> is \<open>None\<close> when the field is absent or not an integer.\<close>

definition generateQuestionsValidation :: "generate_body \<Rightarrow> string list" where
  "generateQuestionsValidation b =
     (if gen_subject b \<noteq> [] then [] else [''Subject is required'']) @
     (if gen_topic b \<noteq> [] then [] else [''Topic is required'']) @
     (if gen_questionType b \<in> set questionTypes then [] else [''Invalid question type'']) @
     (if gen_difficulty b \<in> set difficultyLevels then [] else [''Invalid difficulty level'']) @
     (case gen_count b of
        None \<Rightarrow> [''Count must be between 1 and 20'']
      | Some n \<Rightarrow> if 1 \<le> n \<and> n \<le> 20 then [] else [''Count must be between 1 and 20''])"

text \<open>
  Data of the route: questions, then the metadata subject, topic, questionType,
  difficulty, count, generatedAt, userId.
\<close>

datatype generate_data = GenerateData "jsval list" string string string string nat int nat

text \<open>
  POST /api/questions/generate for the authenticated account \<open>u\<close> (\<^verbatim>\<open>req.user\<close>);
  the second component is that account after the request.
\<close>

definition generate :: "env \<Rightarrow> int \<Rightarrow> string option \<Rightarrow> generate_body \<Rightarrow> user \<Rightarrow> generate_data response \<times> user" where
  "generate E now ext b u =
     (case generateQuestionsValidation b of
        e # es \<Rightarrow> (validationFailed (e # es), u)
      | [] \<Rightarrow>
         (case ext of
            None \<Rightarrow> (errorResponse 500 ''Failed to generate questions. Please try again.'', u)
          | Some text \<Rightarrow>
             (case parseGeneratedQuestions E now text (gen_questionType b) of
                Inl error \<Rightarrow> (errorResponse 500 ''Failed to generate questions. Please try again.'', u)
              | Inr questions \<Rightarrow>
                  (let u' = userUpdateProgress (tzOffset E) now False u
                   in (successResponse 200 (Some ''Questions generated successfully'')
                         (GenerateData questions (gen_subject b) (gen_topic b) (gen_questionType b)
                            (gen_difficulty b) (length questions) now (uid u')),
                       u')))))"

record validate_body =
  va_questionId :: string
  va_answer :: string
  va_questionType :: string
  va_question :: string
  va_correctAnswer :: "string option"

definition validateAnswerValidation :: "validate_body \<Rightarrow> string list" where
  "validateAnswerValidation b =
     (if va_questionId b \<noteq> [] then [] else [''Question ID is required'']) @
     (if va_answer b \<noteq> [] then [] else [''Answer is required'']) @
     (if va_questionType b \<in> set questionTypes then [] else [''Invalid question type''])"

text \<open>
  The \<^verbatim>\<open>switch (questionType)\<close> of the grader.  In the \<^verbatim>\<open>'sql'\<close> case the source
  reads \<^verbatim>\<open>model\<close>, a \<^verbatim>\<open>const\<close> that the \<^verbatim>\<open>'coding'\<close> case declares in the same
  block: the declaration has not run, the read throws a ReferenceError before the
  generator is called, and \<^verbatim>\<open>parseSQLEvaluation\<close> is not reached.
\<close>

definition grade :: "env \<Rightarrow> string option \<Rightarrow> validate_body \<Rightarrow> js_error + evaluation" where
  "grade E ext b =
     (if va_questionType b = ''MCQ''
      then (let isCorrect = (Some (va_answer b) = va_correctAnswer b)
            in Inr \<lparr>ev_isCorrect = JBool isCorrect,
                    ev_feedback = JStr (if isCorrect then ''Correct!'' else ''Incorrect.''),
                    ev_explanation = JStr []\<rparr>)
      else if va_questionType b = ''coding''
      then (case ext of
              None \<Rightarrow> Inl (Error ''generateContent'')
            | Some evaluation \<Rightarrow>
                (let evaluationResult = parseCodeEvaluation E evaluation
                 in Inr \<lparr>ev_isCorrect = ev_isCorrect evaluationResult,
                         ev_feedback = ev_feedback evaluationResult,
                         ev_explanation = ev_explanation evaluationResult\<rparr>))
      else if va_questionType b = ''sql''
      then Inl ReferenceError
      else Inr \<lparr>ev_isCorrect = JBool False,
                ev_feedback = JStr ''Answer validation not implemented for this question type.'',
                ev_explanation = JStr []\<rparr>)"

text \<open>Data of the route: isCorrect, feedback, explanation, userStats.\<close>

datatype validate_data = ValidateData jsval jsval jsval user_stats

text \<open>POST /api/questions/validate-answer for the authenticated account \<open>u\<close>.\<close>

definition validateAnswer :: "env \<Rightarrow> int \<Rightarrow> string option \<Rightarrow> validate_body \<Rightarrow> user \<Rightarrow> validate_data response \<times> user" where
  "validateAnswer E now ext b u =
     (case validateAnswerValidation b of
        e # es \<Rightarrow> (validationFailed (e # es), u)
      | [] \<Rightarrow>
         (case grade E ext b of
            Inl error \<Rightarrow> (errorResponse 500 ''Failed to validate answer. Please try again.'', u)
          | Inr r \<Rightarrow>
              (let u' = userUpdateProgress (tzOffset E) now (truthy (ev_isCorrect r)) u
               in (successResponse 200 None
                     (ValidateData (ev_isCorrect r) (ev_feedback r) (ev_explanation r)
                        (getStats (roundDouble E) u')),
                   u'))))"

text \<open>
  A sequence of grading calls on one account, one after the other: each call has its
  instant, the generator's text and its body, and works on the account that the call
  before it left.
\<close>

record grading_call =
  gc_now :: int
  gc_ext :: "string option"
  gc_body :: validate_body

fun gradingCalls :: "env \<Rightarrow> grading_call list \<Rightarrow> user \<Rightarrow> validate_data response list \<times> user" where
  "gradingCalls E [] u = ([], u)"
| "gradingCalls E (c # cs) u =
     (case validateAnswer E (gc_now c) (gc_ext c) (gc_body c) u of
        (r, u') \<Rightarrow> (case gradingCalls E cs u' of (rs, u'') \<Rightarrow> (r # rs, u'')))"

text \<open>A response that carries a verdict, and one whose verdict is "correct".\<close>

definition graded :: "validate_data response \<Rightarrow> bool" where
  "graded r = (data r \<noteq> None)"

definition judgedCorrect :: "validate_data response \<Rightarrow> bool" where
  "judgedCorrect r = (case data r of None \<Rightarrow> False | Some (ValidateData c f x s) \<Rightarrow> truthy c)"

section \<open>A concrete environment and concrete data for the examples\<close>

text \<open>
  Stand-ins for the libraries, simple enough to evaluate: an email has an at sign and no
  white space and is normalised to lower case, \<^verbatim>\<open>JSON.parse\<close> knows the empty array
  and the empty object and throws on everything else, the server runs in UTC, and the
  rounding leaves its argument alone (the examples below only meet numbers that are
  doubles, small integers, so that no operation on them rounds).
\<close>

definition demoEnv :: env where
  "demoEnv =
     \<lparr>isEmail = (\<lambda>s. CHR ''@'' \<in> set s \<and> \<not> list_ex isSpace s),
      normalizeEmail = toLowerCase,
      bcryptHash = (\<lambda>pw. ''hash:'' @ pw),
      bcryptCompare = (\<lambda>pw h. h = ''hash:'' @ pw),
      generateToken = (\<lambda>i. ''token'' @ string_of_nat i),
      jsonParse = (\<lambda>s. if s = ''[]'' then Some (JArr [])
                         else if s = ''{}'' then Some (JObj [])
                         else None),
      schemaValid = (\<lambda>u. True),
      mathRandom = (\<lambda>i. 1 / 2),
      roundDouble = Num,
      tzOffset = utc\<rparr>"

definition demoUser :: user where
  "demoUser =
     \<lparr>uid = 7, email = ''ann@example.com'', password = ''hash:Secret1'',
      firstName = ''Ann'', lastName = ''Lee'', avatar = None, faceDescriptor = None,
      preferences = JObj [], progress = freshProgress 0, isActive = True,
      lastLogin = 0, loginMethod = ByEmail\<rparr>"

definition mcqBody :: "string \<Rightarrow> validate_body" where
  "mcqBody a =
     \<lparr>va_questionId = ''q1'', va_answer = a, va_questionType = ''MCQ'',
      va_question = ''Pick one'', va_correctAnswer = Some ''A''\<rparr>"

definition codingBody :: validate_body where
  "codingBody =
     \<lparr>va_questionId = ''q2'', va_answer = ''print(1)'', va_questionType = ''coding'',
      va_question = ''Print one'', va_correctAnswer = Some ''print(1)''\<rparr>"

definition generateBody :: generate_body where
  "generateBody =
     \<lparr>gen_subject = ''Physics'', gen_topic = ''Optics'', gen_questionType = ''MCQ'',
      gen_difficulty = ''beginner'', gen_count = Some 5\<rparr>"

text \<open>An account with a stored face descriptor.\<close>

definition faceUser :: "nat \<Rightarrow> real list \<Rightarrow> user" where
  "faceUser i d = demoUser\<lparr>uid := i, faceDescriptor := Some d\<rparr>"

text \<open>
  Five accounts: one far from the query \<open>[1, 0, 0, 0]\<close>, two that store the query
  itself, one with a vector of another length, and one without a vector.
\<close>

definition faceUsers :: db where
  "faceUsers =
     [faceUser 11 [- 1, 0, 0, 0], faceUser 12 [1, 0, 0, 0], faceUser 13 [1, 0, 0, 0],
      faceUser 14 [1, 0, 0], demoUser]"

text \<open>A collection with an active and a deactivated account, and request bodies.\<close>

definition inactiveUser :: user where
  "inactiveUser = demoUser\<lparr>uid := 21, email := ''bob@example.com'', isActive := False\<rparr>"

definition authUsers :: db where
  "authUsers = [demoUser, inactiveUser]"

definition loginBody :: "string \<Rightarrow> string \<Rightarrow> login_body" where
  "loginBody e pw = \<lparr>login_email = e, login_password = pw\<rparr>"


text \<open>A valid request to grade an SQL answer.\<close>

definition sqlBody :: validate_body where
  "sqlBody =
     \<lparr>va_questionId = ''q3'', va_answer = ''SELECT name FROM users'', va_questionType = ''sql'',
      va_question = ''List the names'', va_correctAnswer = Some ''SELECT name FROM users''\<rparr>"





section \<open>Properties of the progress aggregate\<close>

lemma updateProgress_totalQuestions:
  "totalQuestions (updateProgress z now c p) = totalQuestions p + 1"
  by (simp add: updateProgress_def Let_def)

lemma updateProgress_correctAnswers:
  "correctAnswers (updateProgress z now c p) = correctAnswers p + (if c then 1 else 0)"
  by (simp add: updateProgress_def Let_def)

lemma updateProgress_points:
  "points (updateProgress z now c p) = points p + (if c then 10 else 0)"
  by (simp add: updateProgress_def Let_def)

lemma updateProgress_lastActiveDate:
  "lastActiveDate (updateProgress z now c p) = now"
  by (simp add: updateProgress_def Let_def)

lemma updateProgress_streakDays:
  "streakDays (updateProgress z now c p) =
     (if toDateString z now = toDateString z (lastActiveDate p) then streakDays p
      else if now \<le> lastActiveDate p + 86400000 then streakDays p + 1
      else 1)"
  by (simp add: updateProgress_def Let_def)

lemma streak_same_day:
  "toDateString z now = toDateString z (lastActiveDate p) \<Longrightarrow>
   streakDays (updateProgress z now c p) = streakDays p"
  by (simp add: updateProgress_streakDays)

text \<open>
  A gap of two or more calendar days resets the streak, provided the offset of the local
  time has not grown between the two instants (no change to summer time in between).
\<close>

lemma streak_gap_two_days:
  assumes "toDateString z now \<ge> toDateString z (lastActiveDate p) + 2"
    and "z now \<le> z (lastActiveDate p)"
  shows "streakDays (updateProgress z now c p) = 1"
proof -
  let ?l = "lastActiveDate p"
  have "(?l + z ?l) div 86400000 + 2 \<le> (now + z now) div 86400000"
    using assms(1) by (simp add: toDateString_def)
  then have "now + z now > ?l + z ?l + 86400000" by linarith
  then have "now > ?l + 86400000" using assms(2) by linarith
  moreover have "toDateString z now \<noteq> toDateString z ?l" using assms(1) by simp
  ultimately show ?thesis by (simp add: updateProgress_streakDays)
qed

text \<open>
  Claim C3.  Same calendar day: the streak is unchanged (\<open>streak_same_day\<close>).  On the
  calendar day after the last activity the streak should grow by one, and the branch of
  the source is commented "Consecutive day", but its test is
  \<^verbatim>\<open>lastActiveDate + 86400000 >= now\<close>, a window of 24 hours.  On a server in UTC, last
  active at 08:00 of day 0 and answering at 09:00 of day 1, which is the next calendar
  day and 25 hours later, a streak of 5 is reset to 1 instead of becoming 6.
\<close>

theorem streak_next_day_reset:
  "toDateString utc 118800000 = toDateString utc 28800000 + 1 \<and>
   streakDays (updateProgress utc 118800000 True
     \<lparr>totalQuestions = 7, correctAnswers = 4, streakDays = 5,
      lastActiveDate = 28800000, points = 40\<rparr>) = 1"
  by (simp add: updateProgress_streakDays toDateString_def utc_def)

section \<open>Grading and the counters\<close>

lemma userUpdateProgress_progress:
  "progress (userUpdateProgress z now c u) = updateProgress z now c (progress u)"
  by (simp add: userUpdateProgress_def)

lemma validateAnswer_cases:
  "validateAnswer E now ext b u = (r, u') \<Longrightarrow>
     (graded r \<and> u' = userUpdateProgress (tzOffset E) now (judgedCorrect r) u) \<or>
     (\<not> graded r \<and> \<not> judgedCorrect r \<and> u' = u)"
  by (auto simp: validateAnswer_def graded_def judgedCorrect_def successResponse_def
      errorResponse_def validationFailed_def Let_def split: list.splits sum.splits)

lemma gradingCalls_counts:
  "gradingCalls E cs u = (rs, u') \<Longrightarrow>
     totalQuestions (progress u') = totalQuestions (progress u) + int (length (filter graded rs)) \<and>
     correctAnswers (progress u') = correctAnswers (progress u) + int (length (filter judgedCorrect rs)) \<and>
     points (progress u') = points (progress u) + 10 * int (length (filter judgedCorrect rs))"
proof (induction cs arbitrary: u rs u')
  case Nil
  then show ?case by simp
next
  case (Cons c cs)
  obtain r u1 where step: "validateAnswer E (gc_now c) (gc_ext c) (gc_body c) u = (r, u1)"
    by (cases "validateAnswer E (gc_now c) (gc_ext c) (gc_body c) u")
  obtain rs1 u2 where rest: "gradingCalls E cs u1 = (rs1, u2)"
    by (cases "gradingCalls E cs u1")
  from Cons.prems step rest have eqs: "rs = r # rs1" "u' = u2" by auto
  note ih = Cons.IH [OF rest]
  from validateAnswer_cases [OF step] show ?case
  proof
    assume g: "graded r \<and> u1 = userUpdateProgress (tzOffset E) (gc_now c) (judgedCorrect r) u"
    then show ?thesis using ih eqs
      by (simp add: userUpdateProgress_progress updateProgress_totalQuestions
          updateProgress_correctAnswers updateProgress_points)
  next
    assume "\<not> graded r \<and> \<not> judgedCorrect r \<and> u1 = u"
    then show ?thesis using ih eqs by simp
  qed
qed

text \<open>
  The counters follow the verdicts.  After any sequence of requests to validate-answer
  on an account that starts with a fresh progress aggregate, totalQuestions is the number
  of requests that returned a verdict (\<open>graded\<close>), correctAnswers the number of
  verdicts "correct", and points ten times that.  One request adds 1 to totalQuestions
  when it returns a verdict, and 1 to correctAnswers and 10 to points exactly when the
  verdict is "correct"; a request without verdict leaves the account as it was.
\<close>

lemma verdict_counts:
  "(case gradingCalls E cs (u\<lparr>progress := freshProgress t0\<rparr>) of
      (rs, u') \<Rightarrow>
        totalQuestions (progress u') = int (length (filter graded rs)) \<and>
        correctAnswers (progress u') = int (length (filter judgedCorrect rs)) \<and>
        points (progress u') = 10 * int (length (filter judgedCorrect rs))) \<and>
   (case validateAnswer E now ext b u of
      (r, u') \<Rightarrow>
        if graded r
        then totalQuestions (progress u') = totalQuestions (progress u) + 1 \<and>
             correctAnswers (progress u') = correctAnswers (progress u) + (if judgedCorrect r then 1 else 0) \<and>
             points (progress u') = points (progress u) + (if judgedCorrect r then 10 else 0)
        else u' = u)"
proof -
  obtain rs u' where run: "gradingCalls E cs (u\<lparr>progress := freshProgress t0\<rparr>) = (rs, u')"
    by (cases "gradingCalls E cs (u\<lparr>progress := freshProgress t0\<rparr>)")
  have a: "totalQuestions (progress u') = int (length (filter graded rs)) \<and>
        correctAnswers (progress u') = int (length (filter judgedCorrect rs)) \<and>
        points (progress u') = 10 * int (length (filter judgedCorrect rs))"
    using gradingCalls_counts [OF run] by (simp add: freshProgress_def)
  obtain r u1 where step: "validateAnswer E now ext b u = (r, u1)"
    by (cases "validateAnswer E now ext b u")
  have b: "if graded r
        then totalQuestions (progress u1) = totalQuestions (progress u) + 1 \<and>
             correctAnswers (progress u1) = correctAnswers (progress u) + (if judgedCorrect r then 1 else 0) \<and>
             points (progress u1) = points (progress u) + (if judgedCorrect r then 10 else 0)
        else u1 = u"
    using validateAnswer_cases [OF step]
    by (auto simp: userUpdateProgress_progress updateProgress_totalQuestions
          updateProgress_correctAnswers updateProgress_points)
  show ?thesis using a b by (simp add: run step)
qed

section \<open>Grading a multiple-choice answer\<close>

lemma mcqBody_valid: "validateAnswerValidation (mcqBody (c # cs)) = []"
  by (simp add: validateAnswerValidation_def mcqBody_def questionTypes_def)

lemma validateAnswer_mcq:
  "validateAnswerValidation b = [] \<Longrightarrow> va_questionType b = ''MCQ'' \<Longrightarrow>
   validateAnswer E now ext b u =
     (let c = (Some (va_answer b) = va_correctAnswer b);
          u' = userUpdateProgress (tzOffset E) now c u
      in (successResponse 200 None
            (ValidateData (JBool c) (JStr (if c then ''Correct!'' else ''Incorrect.'')) (JStr [])
               (getStats (roundDouble E) u')), u'))"
  by (simp add: validateAnswer_def grade_def Let_def)

text \<open>
  Three graded answers, two of them right: the counters read 3, 2 and 20.
\<close>

lemma grading_example:
  "(case gradingCalls demoEnv
       [\<lparr>gc_now = 1000, gc_ext = None, gc_body = mcqBody ''A''\<rparr>,
        \<lparr>gc_now = 2000, gc_ext = None, gc_body = mcqBody ''B''\<rparr>,
        \<lparr>gc_now = 3000, gc_ext = None, gc_body = mcqBody ''A''\<rparr>] demoUser of
      (rs, u') \<Rightarrow>
        (map graded rs, map judgedCorrect rs, totalQuestions (progress u'),
         correctAnswers (progress u'), points (progress u')))
   = ([True, True, True], [True, False, True], 3, 2, 20)"
proof -
  have t: "va_questionType (mcqBody a) = ''MCQ''" for a by (simp add: mcqBody_def)
  have a: "va_answer (mcqBody a) = a" "va_correctAnswer (mcqBody a) = Some ''A''" for a
    by (simp_all add: mcqBody_def)
  show ?thesis
    by (simp add: validateAnswer_mcq mcqBody_valid t a Let_def graded_def judgedCorrect_def
        successResponse_def userUpdateProgress_progress updateProgress_totalQuestions
        updateProgress_correctAnswers updateProgress_points demoUser_def freshProgress_def)
qed

lemma verdict_counts_example:
  "(case gradingCalls demoEnv
       [\<lparr>gc_now = 1000, gc_ext = None, gc_body = mcqBody ''A''\<rparr>,
        \<lparr>gc_now = 2000, gc_ext = None, gc_body = mcqBody ''B''\<rparr>,
        \<lparr>gc_now = 3000, gc_ext = None, gc_body = mcqBody ''A''\<rparr>]
       (demoUser\<lparr>progress := freshProgress 0\<rparr>) of
      (rs, u') \<Rightarrow>
        map graded rs = [True, True, True] \<and> map judgedCorrect rs = [True, False, True] \<and>
        totalQuestions (progress u') = 3 \<and> correctAnswers (progress u') = 2 \<and>
        points (progress u') = 20)"
proof -
  let ?cs = "[\<lparr>gc_now = 1000, gc_ext = None, gc_body = mcqBody ''A''\<rparr>,
        \<lparr>gc_now = 2000, gc_ext = None, gc_body = mcqBody ''B''\<rparr>,
        \<lparr>gc_now = 3000, gc_ext = None, gc_body = mcqBody ''A''\<rparr>]"
  have same: "demoUser\<lparr>progress := freshProgress 0\<rparr> = demoUser"
    by (simp add: demoUser_def)
  obtain rs u' where run: "gradingCalls demoEnv ?cs (demoUser\<lparr>progress := freshProgress 0\<rparr>) = (rs, u')"
    by (cases "gradingCalls demoEnv ?cs (demoUser\<lparr>progress := freshProgress 0\<rparr>)")
  have verdicts: "map graded rs = [True, True, True] \<and> map judgedCorrect rs = [True, False, True]"
    using grading_example run by (simp add: same)
  then have n: "length (filter graded rs) = 3" "length (filter judgedCorrect rs) = 2"
    by (auto simp: map_eq_Cons_conv)
  have counts: "totalQuestions (progress u') = int (length (filter graded rs)) \<and>
        correctAnswers (progress u') = int (length (filter judgedCorrect rs)) \<and>
        points (progress u') = 10 * int (length (filter judgedCorrect rs))"
    using conjunct1 [OF verdict_counts [where E = demoEnv and cs = ?cs and u = demoUser
          and ?t0.0 = 0 and now = 0 and ext = None and b = "mcqBody ''A''"]]
    unfolding run by (simp only: prod.case)
  show ?thesis
    unfolding run using counts verdicts n by simp
qed

lemma validateAnswer_sql:
  "validateAnswerValidation b = [] \<Longrightarrow> va_questionType b = ''sql'' \<Longrightarrow>
   validateAnswer E now ext b u =
     (errorResponse 500 ''Failed to validate answer. Please try again.'', u)"
  by (simp add: validateAnswer_def grade_def)

lemma sqlBody_valid: "validateAnswerValidation sqlBody = [] \<and> va_questionType sqlBody = ''sql''"
  by (simp add: validateAnswerValidation_def sqlBody_def questionTypes_def)

text \<open>
  Claim C4.  The counters follow the verdicts (\<open>verdict_counts\<close>), so the claim holds
  of every grading call that returns one.  A call to grade an SQL answer never does: the
  body passes validation, the \<^verbatim>\<open>'sql'\<close> case reads \<^verbatim>\<open>model\<close> before its
  declaration has run, the route answers 500 and \<^verbatim>\<open>updateProgress\<close> is not reached.
  After two such grading calls on a fresh account totalQuestions is 0, not 2.
\<close>

theorem sql_answer_not_counted:
  "validateAnswerValidation sqlBody = [] \<and>
   validateAnswer demoEnv 1000 (Some ''{}'') sqlBody demoUser =
     (errorResponse 500 ''Failed to validate answer. Please try again.'', demoUser) \<and>
   snd (gradingCalls demoEnv
          [\<lparr>gc_now = 1000, gc_ext = Some ''{}'', gc_body = sqlBody\<rparr>,
           \<lparr>gc_now = 2000, gc_ext = Some ''{}'', gc_body = sqlBody\<rparr>] demoUser) = demoUser \<and>
   totalQuestions (progress demoUser) = 0"
  using sqlBody_valid
  by (simp add: validateAnswer_sql demoUser_def freshProgress_def)

text \<open>
  Claim C5.  For a multiple-choice question the verdict is the equality of the submitted
  answer and the stored correct answer (an absent correct answer equals no submitted
  answer).  The result mentions neither the generator's text nor any library, so no
  external call takes part; two gradings with the same submitted and correct answer agree,
  whatever the rest of the requests and the environment.  On the route, a body that passes
  validation gets a verdict, and that verdict is this equality.
\<close>

theorem mcq_grading:
  assumes "va_questionType b = ''MCQ''"
  shows "grade E ext b =
           Inr \<lparr>ev_isCorrect = JBool (va_correctAnswer b = Some (va_answer b)),
                ev_feedback = JStr (if va_correctAnswer b = Some (va_answer b)
                                    then ''Correct!'' else ''Incorrect.''),
                ev_explanation = JStr []\<rparr> \<and>
         (va_questionType b' = ''MCQ'' \<and> va_answer b' = va_answer b \<and>
          va_correctAnswer b' = va_correctAnswer b \<longrightarrow> grade E' ext' b' = grade E ext b) \<and>
         (validateAnswerValidation b = [] \<longrightarrow>
            graded (fst (validateAnswer E now ext b u)) \<and>
            judgedCorrect (fst (validateAnswer E now ext b u)) = (va_correctAnswer b = Some (va_answer b)))"
  using assms
  by (auto simp: grade_def Let_def validateAnswer_mcq graded_def judgedCorrect_def successResponse_def)

theorem mcq_grading_witness:
  "grade demoEnv None (mcqBody ''A'') =
     Inr \<lparr>ev_isCorrect = JBool True, ev_feedback = JStr ''Correct!'', ev_explanation = JStr []\<rparr> \<and>
   grade demoEnv None (mcqBody ''B'') =
     Inr \<lparr>ev_isCorrect = JBool False, ev_feedback = JStr ''Incorrect.'', ev_explanation = JStr []\<rparr> \<and>
   grade demoEnv (Some ''x'') (mcqBody ''A'') = grade demoEnv None (mcqBody ''A'') \<and>
   judgedCorrect (fst (validateAnswer demoEnv 5 None (mcqBody ''A'') demoUser)) \<and>
   \<not> judgedCorrect (fst (validateAnswer demoEnv 5 None (mcqBody ''B'') demoUser))"
proof -
  have t: "va_questionType (mcqBody a) = ''MCQ''" for a by (simp add: mcqBody_def)
  have v: "validateAnswerValidation (mcqBody ''A'') = []" "validateAnswerValidation (mcqBody ''B'') = []"
    by (rule mcqBody_valid)+
  have a: "va_answer (mcqBody a) = a" "va_correctAnswer (mcqBody a) = Some ''A''" for a
    by (simp_all add: mcqBody_def)
  show ?thesis
    using mcq_grading [where b = "mcqBody ''A''" and E = demoEnv and ext = None and b' = "mcqBody ''A''"
          and E' = demoEnv and ext' = "Some ''x''" and now = 5 and u = demoUser]
      mcq_grading [where b = "mcqBody ''B''" and E = demoEnv and ext = None and b' = "mcqBody ''B''"
          and E' = demoEnv and ext' = "Some ''x''" and now = 5 and u = demoUser]
    by (simp add: t v a)
qed

section \<open>Parsing the evaluator's answer\<close>

lemma parseCodeEvaluation_no_match:
  "jsonMatch CHR ''{'' CHR ''}'' text = None \<Longrightarrow>
   parseCodeEvaluation E text =
     \<lparr>ev_isCorrect = JBool False, ev_feedback = JStr ''Unable to evaluate answer'',
      ev_explanation = JStr ''Evaluation failed''\<rparr>"
  by (simp add: parseCodeEvaluation_def parseCodeEvaluationTry_def)

lemma parseCodeEvaluation_syntax_error:
  "jsonMatch CHR ''{'' CHR ''}'' text = Some m \<Longrightarrow> jsonParse E m = None \<Longrightarrow>
   parseCodeEvaluation E text =
     \<lparr>ev_isCorrect = JBool False, ev_feedback = JStr ''Error evaluating answer'',
      ev_explanation = JStr ''Evaluation failed due to parsing error''\<rparr>"
  by (simp add: parseCodeEvaluation_def parseCodeEvaluationTry_def)

lemma parseSQLEvaluation_no_match:
  "jsonMatch CHR ''{'' CHR ''}'' text = None \<Longrightarrow>
   parseSQLEvaluation E text =
     \<lparr>ev_isCorrect = JBool False, ev_feedback = JStr ''Unable to evaluate SQL answer'',
      ev_explanation = JStr ''Evaluation failed''\<rparr>"
  by (simp add: parseSQLEvaluation_def parseSQLEvaluationTry_def)

lemma parseSQLEvaluation_syntax_error:
  "jsonMatch CHR ''{'' CHR ''}'' text = Some m \<Longrightarrow> jsonParse E m = None \<Longrightarrow>
   parseSQLEvaluation E text =
     \<lparr>ev_isCorrect = JBool False, ev_feedback = JStr ''Error evaluating SQL answer'',
      ev_explanation = JStr ''Evaluation failed due to parsing error''\<rparr>"
  by (simp add: parseSQLEvaluation_def parseSQLEvaluationTry_def)

lemma grade_coding:
  "va_questionType b = ''coding'' \<Longrightarrow> grade E (Some text) b = Inr (parseCodeEvaluation E text)"
  by (simp add: grade_def Let_def)

lemma validateAnswer_coding:
  "validateAnswerValidation b = [] \<Longrightarrow> va_questionType b = ''coding'' \<Longrightarrow>
   validateAnswer E now (Some text) b u =
     (let r = parseCodeEvaluation E text;
          u' = userUpdateProgress (tzOffset E) now (truthy (ev_isCorrect r)) u
      in (successResponse 200 None
            (ValidateData (ev_isCorrect r) (ev_feedback r) (ev_explanation r)
               (getStats (roundDouble E) u')), u'))"
  by (simp add: validateAnswer_def grade_coding Let_def)

text \<open>
  Claim C6.  When the evaluator's text holds no \<^verbatim>\<open>{...}\<close>, or the extracted substring
  makes \<^verbatim>\<open>JSON.parse\<close> throw, \<^verbatim>\<open>parseCodeEvaluation\<close> and
  \<^verbatim>\<open>parseSQLEvaluation\<close> return a result with isCorrect = false and their fixed failure
  texts; the exception of the \<^verbatim>\<open>try\<close> block does not leave them.  On the route, a
  valid coding request with such a text is answered 200 with a verdict that is not
  "correct".
\<close>

theorem evaluation_parse_failure:
  assumes "jsonMatch CHR ''{'' CHR ''}'' text = None \<or>
           (\<exists>m. jsonMatch CHR ''{'' CHR ''}'' text = Some m \<and> jsonParse E m = None)"
  shows "parseCodeEvaluation E text =
           \<lparr>ev_isCorrect = JBool False,
            ev_feedback = JStr (if jsonMatch CHR ''{'' CHR ''}'' text = None
                                then ''Unable to evaluate answer'' else ''Error evaluating answer''),
            ev_explanation = JStr (if jsonMatch CHR ''{'' CHR ''}'' text = None
                                   then ''Evaluation failed''
                                   else ''Evaluation failed due to parsing error'')\<rparr> \<and>
         parseSQLEvaluation E text =
           \<lparr>ev_isCorrect = JBool False,
            ev_feedback = JStr (if jsonMatch CHR ''{'' CHR ''}'' text = None
                                then ''Unable to evaluate SQL answer'' else ''Error evaluating SQL answer''),
            ev_explanation = JStr (if jsonMatch CHR ''{'' CHR ''}'' text = None
                                   then ''Evaluation failed''
                                   else ''Evaluation failed due to parsing error'')\<rparr> \<and>
         (validateAnswerValidation b = [] \<and> va_questionType b = ''coding'' \<longrightarrow>
            code (fst (validateAnswer E now (Some text) b u)) = 200 \<and>
            graded (fst (validateAnswer E now (Some text) b u)) \<and>
            \<not> judgedCorrect (fst (validateAnswer E now (Some text) b u)))"
  using assms
proof
  assume n: "jsonMatch CHR ''{'' CHR ''}'' text = None"
  show ?thesis
    by (simp add: n parseCodeEvaluation_no_match parseSQLEvaluation_no_match validateAnswer_coding
        Let_def successResponse_def graded_def judgedCorrect_def)
next
  assume "\<exists>m. jsonMatch CHR ''{'' CHR ''}'' text = Some m \<and> jsonParse E m = None"
  then obtain m where m: "jsonMatch CHR ''{'' CHR ''}'' text = Some m" "jsonParse E m = None"
    by blast
  show ?thesis
    by (simp add: m parseCodeEvaluation_syntax_error [OF m] parseSQLEvaluation_syntax_error [OF m]
        validateAnswer_coding Let_def successResponse_def graded_def judgedCorrect_def)
qed

lemma match1: "jsonMatch CHR ''{'' CHR ''}'' ''It is fine'' = None"
  by (simp add: jsonMatch_def)

lemma match2: "jsonMatch CHR ''{'' CHR ''}'' ''Sure: {yes}'' = Some ''{yes}''"
  by (simp add: jsonMatch_def)

lemma codingBody_ok: "validateAnswerValidation codingBody = [] \<and> va_questionType codingBody = ''coding''"
  by (simp add: validateAnswerValidation_def codingBody_def questionTypes_def)

theorem evaluation_parse_failure_witness:
  "parseCodeEvaluation demoEnv ''It is fine'' =
     \<lparr>ev_isCorrect = JBool False, ev_feedback = JStr ''Unable to evaluate answer'',
      ev_explanation = JStr ''Evaluation failed''\<rparr> \<and>
   parseSQLEvaluation demoEnv ''Sure: {yes}'' =
     \<lparr>ev_isCorrect = JBool False, ev_feedback = JStr ''Error evaluating SQL answer'',
      ev_explanation = JStr ''Evaluation failed due to parsing error''\<rparr> \<and>
   code (fst (validateAnswer demoEnv 7 (Some ''Sure: {yes}'') codingBody demoUser)) = 200 \<and>
   \<not> judgedCorrect (fst (validateAnswer demoEnv 7 (Some ''Sure: {yes}'') codingBody demoUser))"
proof -
  have p: "jsonParse demoEnv ''{yes}'' = None" by (simp add: demoEnv_def)
  have h1: "jsonMatch CHR ''{'' CHR ''}'' ''It is fine'' = None \<or>
           (\<exists>m. jsonMatch CHR ''{'' CHR ''}'' ''It is fine'' = Some m \<and> jsonParse demoEnv m = None)"
    by (simp add: match1)
  have h2: "jsonMatch CHR ''{'' CHR ''}'' ''Sure: {yes}'' = None \<or>
           (\<exists>m. jsonMatch CHR ''{'' CHR ''}'' ''Sure: {yes}'' = Some m \<and> jsonParse demoEnv m = None)"
    by (simp add: match2 p)
  show ?thesis
    using evaluation_parse_failure [OF h1, of codingBody 7 demoUser]
      evaluation_parse_failure [OF h2, of codingBody 7 demoUser]
    by (simp add: match1 match2 codingBody_ok)
qed

section \<open>Generating questions\<close>

lemma generate_cases:
  "(code (fst (generate E now ext b u)) = 200 \<and>
      snd (generate E now ext b u) = userUpdateProgress (tzOffset E) now False u) \<or>
   (code (fst (generate E now ext b u)) \<noteq> 200 \<and> snd (generate E now ext b u) = u)"
  by (simp add: generate_def successResponse_def errorResponse_def validationFailed_def Let_def
      split: list.splits sum.splits option.splits)

text \<open>
  Claim C10.  A successful POST /api/questions/generate (answered 200) leaves the account
  as \<^verbatim>\<open>updateProgress(false)\<close> does: totalQuestions grows by 1, correctAnswers and points
  stay, lastActiveDate becomes the instant of the request, and the account is the one
  that a grading call at the same instant with a verdict other than "correct" leaves,
  streak included.
\<close>

theorem generate_updates_progress:
  assumes "code (fst (generate E now ext b u)) = 200"
  shows "snd (generate E now ext b u) = userUpdateProgress (tzOffset E) now False u \<and>
         totalQuestions (progress (snd (generate E now ext b u))) = totalQuestions (progress u) + 1 \<and>
         correctAnswers (progress (snd (generate E now ext b u))) = correctAnswers (progress u) \<and>
         points (progress (snd (generate E now ext b u))) = points (progress u) \<and>
         lastActiveDate (progress (snd (generate E now ext b u))) = now \<and>
         (graded (fst (validateAnswer E now ext' vb u)) \<and>
          \<not> judgedCorrect (fst (validateAnswer E now ext' vb u)) \<longrightarrow>
            snd (validateAnswer E now ext' vb u) = snd (generate E now ext b u))"
proof -
  have g: "snd (generate E now ext b u) = userUpdateProgress (tzOffset E) now False u"
    using generate_cases [of E now ext b u] assms by auto
  obtain r u1 where step: "validateAnswer E now ext' vb u = (r, u1)"
    by (cases "validateAnswer E now ext' vb u")
  have v: "graded r \<and> \<not> judgedCorrect r \<longrightarrow> u1 = userUpdateProgress (tzOffset E) now False u"
    using validateAnswer_cases [OF step] by auto
  show ?thesis
    using v
    by (simp add: g step userUpdateProgress_progress updateProgress_totalQuestions
        updateProgress_correctAnswers updateProgress_points updateProgress_lastActiveDate)
qed

lemma generate_example:
  "fst (generate demoEnv 3600000 (Some ''Here you are: []'') generateBody demoUser) =
     successResponse 200 (Some ''Questions generated successfully'')
       (GenerateData [] ''Physics'' ''Optics'' ''MCQ'' ''beginner'' 0 3600000 7)"
  by (simp add: generate_def generateQuestionsValidation_def generateBody_def questionTypes_def
      difficultyLevels_def parseGeneratedQuestions_def parseGeneratedQuestionsTry_def jsonMatch_def
      demoEnv_def Let_def userUpdateProgress_def demoUser_def)

theorem generate_updates_progress_witness:
  "code (fst (generate demoEnv 3600000 (Some ''Here you are: []'') generateBody demoUser)) = 200 \<and>
   progress (snd (generate demoEnv 3600000 (Some ''Here you are: []'') generateBody demoUser)) =
     \<lparr>totalQuestions = 1, correctAnswers = 0, streakDays = 0, lastActiveDate = 3600000, points = 0\<rparr>"
proof -
  have c: "code (fst (generate demoEnv 3600000 (Some ''Here you are: []'') generateBody demoUser)) = 200"
    by (simp add: generate_example successResponse_def)
  have "snd (generate demoEnv 3600000 (Some ''Here you are: []'') generateBody demoUser) =
          userUpdateProgress (tzOffset demoEnv) 3600000 False demoUser"
    using generate_updates_progress [OF c] by simp
  then show ?thesis
    using c
    by (simp add: userUpdateProgress_def updateProgress_def Let_def demoUser_def demoEnv_def
        freshProgress_def toDateString_def utc_def)
qed

section \<open>The similarity scorer\<close>

lemma calculateFaceSimilarity_eq:
  "calculateFaceSimilarity rnd d1 d2 = calculateSimilarity rnd d1 d2"
  by (simp add: calculateFaceSimilarity_def calculateSimilarity_def)

lemma calculateSimilarity_differ:
  "length d1 \<noteq> length d2 \<Longrightarrow> calculateSimilarity rnd d1 d2 = Num 0"
  by (simp add: calculateSimilarity_def)

lemma calculateSimilarity_empty: "calculateSimilarity rnd [] [] = NaN"
  by (simp add: calculateSimilarity_def sumSquaredDiff_def fl_def)

text \<open>
  A vector and itself, in rounded arithmetic: every difference is 0, and so are the sum
  and the distance; the result is 1 as soon as 1 is its own rounding and the square root
  of the length rounds to a finite number other than 0, as it does for doubles.
\<close>

lemma foldl_zero:
  "foldl (\<lambda>s i. let diff = js_sub rnd (Num (v ! i)) (Num (v ! i))
                in js_add rnd s (js_mul rnd diff diff)) (Num 0) [0..<n] = Num 0"
  by (induction n) (simp_all add: fl_def Let_def)

lemma sumSquaredDiff_self: "sumSquaredDiff rnd v v = Num 0"
  unfolding sumSquaredDiff_def by (rule foldl_zero)

lemma calculateSimilarity_self:
  assumes "v \<noteq> []" and "rnd 1 = Num 1" and "rnd (sqrt (real (length v))) = Num y" and "y \<noteq> 0"
  shows "calculateSimilarity rnd v v = Num 1"
  using assms
  by (simp add: calculateSimilarity_def sumSquaredDiff_self fl_def Let_def)

text \<open>
  In exact arithmetic (a rounding that changes nothing) the scorer computes the formula
  of the specification for non-empty vectors of equal length, a number between 0 and 1.
\<close>

lemma fl_exact: "fl Num x = Num x"
  by (simp add: fl_def)

lemma foldl_exact:
  "foldl (\<lambda>s i. let diff = js_sub Num (Num (d1 ! i)) (Num (d2 ! i))
                in js_add Num s (js_mul Num diff diff)) (Num a) [0..<n]
   = Num (a + (\<Sum>i<n. (d1 ! i - d2 ! i)\<^sup>2))"
  by (induction n) (simp_all add: fl_exact Let_def power2_eq_square)

lemma sumSquaredDiff_exact:
  "sumSquaredDiff Num d1 d2 = Num (\<Sum>i<length d1. (d1 ! i - d2 ! i)\<^sup>2)"
  unfolding sumSquaredDiff_def using foldl_exact [of d1 d2 0 "length d1"] by simp

lemma calculateSimilarity_exact:
  "length d1 = length d2 \<Longrightarrow> d1 \<noteq> [] \<Longrightarrow>
   calculateSimilarity Num d1 d2 =
     Num (max 0 (1 - sqrt (\<Sum>i<length d1. (d1 ! i - d2 ! i)\<^sup>2) / sqrt (real (length d1))))"
  by (auto simp: calculateSimilarity_def Let_def sumSquaredDiff_exact fl_exact not_less sum_nonneg)

lemma calculateSimilarity_exact_range:
  "d1 \<noteq> [] \<or> d2 \<noteq> [] \<Longrightarrow> \<exists>r. calculateSimilarity Num d1 d2 = Num r \<and> 0 \<le> r \<and> r \<le> 1"
proof (cases "length d1 = length d2")
  case False
  then show ?thesis by (simp add: calculateSimilarity_differ)
next
  case True
  assume "d1 \<noteq> [] \<or> d2 \<noteq> []"
  with True have ne: "d1 \<noteq> []" by auto
  have "0 \<le> sqrt (\<Sum>i<length d1. (d1 ! i - d2 ! i)\<^sup>2) / sqrt (real (length d1))"
    by (simp add: sum_nonneg)
  then show ?thesis
    by (simp add: calculateSimilarity_exact [OF True ne])
qed

text \<open>
  Claim C1.  For vectors of different lengths the scorer returns 0
  (\<open>calculateSimilarity_differ\<close>); a non-empty vector and itself have similarity 1
  (\<open>calculateSimilarity_self\<close>), and in exact arithmetic the result for non-empty vectors
  of equal length is \<open>max 0 (1 - distance / sqrt length)\<close>, between 0 and 1
  (\<open>calculateSimilarity_exact\<close>, \<open>calculateSimilarity_exact_range\<close>).  For two empty
  arrays the lengths agree, the loop does not run, and the last line divides 0 by
  \<^verbatim>\<open>Math.sqrt(0)\<close>: whatever the rounding, both functions return NaN, which is neither
  1 nor inside the 0-1 scale that the comment of the source promises.
\<close>

theorem similarity_of_empty_vectors:
  "calculateSimilarity rnd [] [] = NaN \<and> calculateFaceSimilarity rnd [] [] = NaN \<and>
   calculateSimilarity rnd [] [] \<noteq> Num 1 \<and> \<not> js_gt (calculateFaceSimilarity rnd [] []) threshold"
  by (simp add: calculateFaceSimilarity_eq calculateSimilarity_empty)

lemma similarity_example_same:
  "rnd 1 = Num 1 \<Longrightarrow> rnd (sqrt 3) = Num y \<Longrightarrow> y \<noteq> 0 \<Longrightarrow>
   calculateSimilarity rnd [1/10, 2/10, 3/10] [1/10, 2/10, 3/10] = Num 1"
  by (rule calculateSimilarity_self) simp_all

lemma similarity_example_orthogonal:
  "calculateSimilarity Num [1, 0, 0] [0, 1, 0] = Num (1 - sqrt 2 / sqrt 3)"
  by (simp add: calculateSimilarity_exact)

section \<open>The best-match selector of face login\<close>

lemma js_gt_trans: "js_gt a b \<Longrightarrow> js_gt b c \<Longrightarrow> js_gt a c"
  by (cases a; cases b; cases c; simp)

lemma js_gt_irrefl: "\<not> js_gt a a"
  by (cases a; simp)

lemma js_gt_asym: "js_gt a b \<Longrightarrow> \<not> js_gt b a"
  by (cases a; cases b; simp)

lemma js_gt_not_NaN: "js_gt a b \<Longrightarrow> a \<noteq> NaN \<and> b \<noteq> NaN"
  by (cases a; cases b; simp)

lemma js_gt_neg_trans: "w \<noteq> NaN \<Longrightarrow> \<not> js_gt v w \<Longrightarrow> js_gt v u \<Longrightarrow> js_gt w u"
  by (cases u; cases v; cases w; simp)

lemma clears_maximal:
  "v \<in> set xs \<Longrightarrow> clears rnd q v \<Longrightarrow> js_gt (score rnd q v) c \<Longrightarrow>
   \<exists>w\<in>set xs. clears rnd q w \<and> js_gt (score rnd q w) c \<and>
     (\<forall>v'\<in>set xs. \<not> (clears rnd q v' \<and> js_gt (score rnd q v') (score rnd q w)))"
proof (induction xs arbitrary: v)
  case Nil
  then show ?case by simp
next
  case (Cons x rest)
  show ?case
  proof (cases "\<exists>y\<in>set rest. clears rnd q y \<and> js_gt (score rnd q y) c")
    case True
    then obtain y where "y \<in> set rest" "clears rnd q y" "js_gt (score rnd q y) c" by blast
    from Cons.IH [OF this] obtain w where w: "w \<in> set rest" "clears rnd q w" "js_gt (score rnd q w) c"
      "\<forall>v'\<in>set rest. \<not> (clears rnd q v' \<and> js_gt (score rnd q v') (score rnd q w))" by blast
    show ?thesis
    proof (cases "clears rnd q x \<and> js_gt (score rnd q x) (score rnd q w)")
      case True
      have "js_gt (score rnd q x) c" using True w(3) js_gt_trans by blast
      moreover have "\<not> (clears rnd q v' \<and> js_gt (score rnd q v') (score rnd q x))" if "v' \<in> set (x # rest)" for v'
      proof (cases "v' = x")
        case True
        then show ?thesis by (simp add: js_gt_irrefl)
      next
        case False
        then have "v' \<in> set rest" using that by simp
        then show ?thesis using w(4) True js_gt_trans by blast
      qed
      ultimately show ?thesis using True by auto
    next
      case False
      then show ?thesis using w by auto
    qed
  next
    case False
    then have vx: "v = x" using Cons.prems by auto
    have "\<not> (clears rnd q v' \<and> js_gt (score rnd q v') (score rnd q x))" if "v' \<in> set (x # rest)" for v'
    proof (cases "v' = x")
      case True
      then show ?thesis by (simp add: js_gt_irrefl)
    next
      case nx: False
      then have "v' \<in> set rest" using that by simp
      then show ?thesis using False Cons.prems(3) vx js_gt_trans by blast
    qed
    then show ?thesis using Cons.prems vx by auto
  qed
qed

lemma bestMatchLoop_Cons:
  "bestMatchLoop rnd q (u # us) (m, b) =
     (if clears rnd q u \<and> js_gt (score rnd q u) b then bestMatchLoop rnd q us (Some u, score rnd q u)
      else bestMatchLoop rnd q us (m, b))"
  by (simp add: clears_def eligible_def score_def Let_def split: option.splits)

lemma bestMatchLoop_find:
  "bestMatchLoop rnd q us (m, b) =
     (case find (\<lambda>u. clears rnd q u \<and> js_gt (score rnd q u) b \<and>
                    (\<forall>v\<in>set us. \<not> (clears rnd q v \<and> js_gt (score rnd q v) (score rnd q u)))) us of
        None \<Rightarrow> (m, b)
      | Some u \<Rightarrow> (Some u, score rnd q u))"
proof (induction us arbitrary: m b)
  case Nil
  show ?case by simp
next
  case (Cons u rest)
  let ?P = "\<lambda>xs c w. clears rnd q w \<and> js_gt (score rnd q w) c \<and>
                    (\<forall>v\<in>set xs. \<not> (clears rnd q v \<and> js_gt (score rnd q v) (score rnd q w)))"
  have unfold_find: "find (?P (u # rest) b) (u # rest) =
      (if ?P (u # rest) b u then Some u else find (?P (u # rest) b) rest)"
    by (rule find.simps(2))
  show ?case
  proof (cases "clears rnd q u \<and> js_gt (score rnd q u) b")
    case True
    then have cu: "clears rnd q u" and gu: "js_gt (score rnd q u) b" by simp_all
    have loop: "bestMatchLoop rnd q (u # rest) (m, b) = bestMatchLoop rnd q rest (Some u, score rnd q u)"
      using True by (simp add: bestMatchLoop_Cons del: bestMatchLoop.simps)
    show ?thesis
    proof (cases "\<forall>v\<in>set rest. \<not> (clears rnd q v \<and> js_gt (score rnd q v) (score rnd q u))")
      case top: True
      have pu: "?P (u # rest) b u" using cu gu top by (simp add: js_gt_irrefl)
      have r: "find (?P (u # rest) b) (u # rest) = Some u"
        by (rule trans [OF unfold_find if_P [OF pu]])
      have l: "find (?P rest (score rnd q u)) rest = None"
        using top by (auto simp: find_None_iff)
      show ?thesis by (simp only: loop Cons.IH r l option.case)
    next
      case False
      then obtain v0 where v0: "v0 \<in> set rest" "clears rnd q v0" "js_gt (score rnd q v0) (score rnd q u)"
        by blast
      have npu: "\<not> ?P (u # rest) b u" using v0 by auto
      have r: "find (?P (u # rest) b) (u # rest) = find (?P (u # rest) b) rest"
        by (rule trans [OF unfold_find if_not_P [OF npu]])
      have eq: "?P (u # rest) b w = ?P rest (score rnd q u) w" if "w \<in> set rest" for w
      proof
        assume a: "?P (u # rest) b w"
        then have nw: "score rnd q w \<noteq> NaN" using js_gt_not_NaN by blast
        from a v0 have "\<not> js_gt (score rnd q v0) (score rnd q w)" by auto
        then have "js_gt (score rnd q w) (score rnd q u)"
          using js_gt_neg_trans [OF nw _ v0(3)] by blast
        then show "?P rest (score rnd q u) w" using a by auto
      next
        assume a: "?P rest (score rnd q u) w"
        then have "js_gt (score rnd q w) b" using gu js_gt_trans by blast
        moreover have "\<not> js_gt (score rnd q u) (score rnd q w)" using a js_gt_asym by blast
        ultimately show "?P (u # rest) b w" using a by auto
      qed
      have e: "find (?P (u # rest) b) rest = find (?P rest (score rnd q u)) rest"
        by (rule find_cong [OF refl]) (use eq in blast)
      obtain w where "w \<in> set rest" "?P rest (score rnd q u) w"
        using clears_maximal [OF v0] by blast
      then have "find (?P rest (score rnd q u)) rest \<noteq> None"
        by (auto simp: find_None_iff)
      then obtain w' where l: "find (?P rest (score rnd q u)) rest = Some w'" by blast
      show ?thesis by (simp only: loop Cons.IH r e l option.case)
    qed
  next
    case False
    have loop: "bestMatchLoop rnd q (u # rest) (m, b) = bestMatchLoop rnd q rest (m, b)"
      using False by (auto simp add: bestMatchLoop_Cons simp del: bestMatchLoop.simps)
    have npu: "\<not> ?P (u # rest) b u" using False by auto
    have r: "find (?P (u # rest) b) (u # rest) = find (?P (u # rest) b) rest"
      by (rule trans [OF unfold_find if_not_P [OF npu]])
    have eq: "?P (u # rest) b w = ?P rest b w" if "w \<in> set rest" for w
    proof
      assume "?P (u # rest) b w" then show "?P rest b w" by auto
    next
      assume a: "?P rest b w"
      have "\<not> (clears rnd q u \<and> js_gt (score rnd q u) (score rnd q w))"
        using a False js_gt_trans by blast
      then show "?P (u # rest) b w" using a by auto
    qed
    have e: "find (?P (u # rest) b) rest = find (?P rest b) rest"
      by (rule find_cong [OF refl]) (use eq in blast)
    show ?thesis by (simp only: loop Cons.IH r e)
  qed
qed

lemma bestMatchLoop_usersWithFace:
  "bestMatchLoop rnd q (usersWithFace users) acc = bestMatchLoop rnd q users acc"
proof (induction users arbitrary: acc)
  case Nil
  show ?case by (simp add: usersWithFace_def)
next
  case (Cons u users)
  obtain m b where acc: "acc = (m, b)" by (cases acc)
  show ?case
  proof (cases "faceDescriptor u")
    case None
    then show ?thesis using Cons.IH [of "(m, b)"] by (simp add: usersWithFace_def acc)
  next
    case (Some d)
    then show ?thesis
      using Cons.IH [of "(m, b)"] Cons.IH [of "(Some u, calculateSimilarity rnd q d)"]
      by (simp add: usersWithFace_def acc Let_def)
  qed
qed

lemma threshold_positive: "js_gt threshold (Num 0)"
  by (simp add: threshold_def)

lemma clears_positive: "clears rnd q u \<Longrightarrow> js_gt (score rnd q u) (Num 0)"
  using js_gt_trans threshold_positive by (auto simp: clears_def)

lemma bestMatchLoop_spec:
  "bestMatchLoop rnd q (usersWithFace users) (None, Num 0) =
     (case bestMatchSpec rnd q users of None \<Rightarrow> (None, Num 0) | Some u \<Rightarrow> (Some u, score rnd q u))"
proof -
  have "find (\<lambda>u. clears rnd q u \<and> js_gt (score rnd q u) (Num 0) \<and>
                    (\<forall>v\<in>set users. \<not> (clears rnd q v \<and> js_gt (score rnd q v) (score rnd q u)))) users
        = bestMatchSpec rnd q users"
    unfolding bestMatchSpec_def
    by (rule find_cong [OF refl]) (auto simp: list_all_iff clears_positive)
  then have "bestMatchLoop rnd q users (None, Num 0) =
     (case bestMatchSpec rnd q users of None \<Rightarrow> (None, Num 0) | Some u \<Rightarrow> (Some u, score rnd q u))"
    by (simp only: bestMatchLoop_find)
  then show ?thesis
    by (simp only: bestMatchLoop_usersWithFace)
qed

lemma bestMatchSpec_Some:
  assumes "bestMatchSpec rnd q users = Some u"
  shows "u \<in> set users" "eligible q u" "js_gt (score rnd q u) threshold"
    "\<forall>v\<in>set users. eligible q v \<longrightarrow> \<not> js_gt (score rnd q v) (score rnd q u)"
    "\<exists>i<length users. users ! i = u \<and>
        (\<forall>j<i. \<not> (eligible q (users ! j) \<and> score rnd q (users ! j) = score rnd q u))"
proof -
  let ?P = "\<lambda>u. clears rnd q u \<and> list_all (\<lambda>v. \<not> (clears rnd q v \<and> js_gt (score rnd q v) (score rnd q u))) users"
  from assms obtain i where i: "i < length users" "?P (users ! i)" "u = users ! i"
    "\<forall>j<i. \<not> ?P (users ! j)"
    unfolding bestMatchSpec_def find_Some_iff by blast
  show "u \<in> set users" using i by simp
  show e: "eligible q u" and g: "js_gt (score rnd q u) threshold" using i by (simp_all add: clears_def)
  have top: "\<forall>v\<in>set users. \<not> (clears rnd q v \<and> js_gt (score rnd q v) (score rnd q u))"
    using i by (simp add: list_all_iff)
  show "\<forall>v\<in>set users. eligible q v \<longrightarrow> \<not> js_gt (score rnd q v) (score rnd q u)"
  proof (intro ballI impI)
    fix v assume v: "v \<in> set users" "eligible q v"
    show "\<not> js_gt (score rnd q v) (score rnd q u)"
    proof
      assume a: "js_gt (score rnd q v) (score rnd q u)"
      then have "js_gt (score rnd q v) threshold" using g js_gt_trans by blast
      then show False using top v a by (auto simp: clears_def)
    qed
  qed
  have "\<not> (eligible q (users ! j) \<and> score rnd q (users ! j) = score rnd q u)" if "j < i" for j
  proof
    assume a: "eligible q (users ! j) \<and> score rnd q (users ! j) = score rnd q u"
    then have "?P (users ! j)" using g top by (simp add: clears_def list_all_iff)
    then show False using i that by blast
  qed
  then show "\<exists>i<length users. users ! i = u \<and>
        (\<forall>j<i. \<not> (eligible q (users ! j) \<and> score rnd q (users ! j) = score rnd q u))"
    using i by blast
qed

lemma bestMatchSpec_None:
  "bestMatchSpec rnd q users = None \<longleftrightarrow> \<not> list_ex (clears rnd q) users"
proof
  assume "bestMatchSpec rnd q users = None"
  then have n: "\<forall>u\<in>set users. \<not> (clears rnd q u \<and>
      (\<forall>v\<in>set users. \<not> (clears rnd q v \<and> js_gt (score rnd q v) (score rnd q u))))"
    by (simp add: bestMatchSpec_def find_None_iff list_all_iff)
  show "\<not> list_ex (clears rnd q) users"
  proof
    assume "list_ex (clears rnd q) users"
    then obtain v where v: "v \<in> set users" "clears rnd q v" by (auto simp: list_ex_iff)
    from clears_maximal [OF v clears_positive [OF v(2)]] n show False by blast
  qed
next
  assume "\<not> list_ex (clears rnd q) users"
  then show "bestMatchSpec rnd q users = None"
    by (auto simp: bestMatchSpec_def find_None_iff list_ex_iff)
qed

lemma faceLogin_spec:
  "faceLogin E now (Some q) users =
     (case bestMatchSpec (roundDouble E) q users of
        None \<Rightarrow> (errorResponse 401 ''Face not recognized'', users)
      | Some m \<Rightarrow>
          if \<not> isActive m then (errorResponse 401 ''Account is deactivated'', users)
          else (successResponse 200 (Some ''Face login successful'')
                  (AuthData (userView (m\<lparr>lastLogin := now, loginMethod := ByFace\<rparr>))
                     (generateToken E (uid m)) (Some (score (roundDouble E) q m))),
                saveUser (m\<lparr>lastLogin := now, loginMethod := ByFace\<rparr>) users))"
  by (simp add: faceLogin_def bestMatchLoop_spec Let_def split: option.splits)

text \<open>
  Claim C2.  Whatever the rounding of the arithmetic, the loop of face login computes the
  selector that the specification words (\<open>bestMatchSpec\<close>), on the similarities that the
  scorer returns.  The similarity is taken only for accounts whose stored vector has
  the length of the query (\<open>eligible\<close>).  When an account is selected, it is in the
  collection, it is eligible, its similarity strictly exceeds 0.6 and is the similarity
  that the response reports, no eligible account has a greater one, and no account before
  it in the collection is eligible with the same similarity (the earliest wins a tie);
  the route then answers 200 for it, or 401 when the account is deactivated.  No account
  is selected exactly when no stored vector clears the threshold, and then the route
  answers 401 "Face not recognized" and changes nothing.
\<close>

theorem best_match_selection:
  "fst (bestMatchLoop (roundDouble E) q (usersWithFace users) (None, Num 0)) = bestMatchSpec (roundDouble E) q users \<and>
   (bestMatchSpec (roundDouble E) q users = Some u \<longrightarrow>
      u \<in> set users \<and> eligible q u \<and> js_gt (score (roundDouble E) q u) threshold \<and>
      snd (bestMatchLoop (roundDouble E) q (usersWithFace users) (None, Num 0)) = score (roundDouble E) q u \<and>
      (\<forall>v\<in>set users. eligible q v \<longrightarrow> \<not> js_gt (score (roundDouble E) q v) (score (roundDouble E) q u)) \<and>
      (\<exists>i<length users. users ! i = u \<and>
         (\<forall>j<i. \<not> (eligible q (users ! j) \<and> score (roundDouble E) q (users ! j) = score (roundDouble E) q u))) \<and>
      fst (faceLogin E now (Some q) users) =
        (if isActive u
         then successResponse 200 (Some ''Face login successful'')
                (AuthData (userView (u\<lparr>lastLogin := now, loginMethod := ByFace\<rparr>))
                   (generateToken E (uid u)) (Some (score (roundDouble E) q u)))
         else errorResponse 401 ''Account is deactivated'')) \<and>
   (bestMatchSpec (roundDouble E) q users = None \<longleftrightarrow> \<not> list_ex (clears (roundDouble E) q) users) \<and>
   (\<not> list_ex (clears (roundDouble E) q) users \<longrightarrow>
      faceLogin E now (Some q) users = (errorResponse 401 ''Face not recognized'', users))"
proof -
  have a: "fst (bestMatchLoop (roundDouble E) q (usersWithFace users) (None, Num 0)) = bestMatchSpec (roundDouble E) q users"
    by (simp add: bestMatchLoop_spec split: option.splits)
  have b: "bestMatchSpec (roundDouble E) q users = Some u \<longrightarrow>
      u \<in> set users \<and> eligible q u \<and> js_gt (score (roundDouble E) q u) threshold \<and>
      snd (bestMatchLoop (roundDouble E) q (usersWithFace users) (None, Num 0)) = score (roundDouble E) q u \<and>
      (\<forall>v\<in>set users. eligible q v \<longrightarrow> \<not> js_gt (score (roundDouble E) q v) (score (roundDouble E) q u)) \<and>
      (\<exists>i<length users. users ! i = u \<and>
         (\<forall>j<i. \<not> (eligible q (users ! j) \<and> score (roundDouble E) q (users ! j) = score (roundDouble E) q u))) \<and>
      fst (faceLogin E now (Some q) users) =
        (if isActive u
         then successResponse 200 (Some ''Face login successful'')
                (AuthData (userView (u\<lparr>lastLogin := now, loginMethod := ByFace\<rparr>))
                   (generateToken E (uid u)) (Some (score (roundDouble E) q u)))
         else errorResponse 401 ''Account is deactivated'')"
  proof
    assume s: "bestMatchSpec (roundDouble E) q users = Some u"
    show "u \<in> set users \<and> eligible q u \<and> js_gt (score (roundDouble E) q u) threshold \<and>
      snd (bestMatchLoop (roundDouble E) q (usersWithFace users) (None, Num 0)) = score (roundDouble E) q u \<and>
      (\<forall>v\<in>set users. eligible q v \<longrightarrow> \<not> js_gt (score (roundDouble E) q v) (score (roundDouble E) q u)) \<and>
      (\<exists>i<length users. users ! i = u \<and>
         (\<forall>j<i. \<not> (eligible q (users ! j) \<and> score (roundDouble E) q (users ! j) = score (roundDouble E) q u))) \<and>
      fst (faceLogin E now (Some q) users) =
        (if isActive u
         then successResponse 200 (Some ''Face login successful'')
                (AuthData (userView (u\<lparr>lastLogin := now, loginMethod := ByFace\<rparr>))
                   (generateToken E (uid u)) (Some (score (roundDouble E) q u)))
         else errorResponse 401 ''Account is deactivated'')"
      using bestMatchSpec_Some [OF s]
      by (simp add: bestMatchLoop_spec faceLogin_spec s)
  qed
  have c: "bestMatchSpec (roundDouble E) q users = None \<longleftrightarrow> \<not> list_ex (clears (roundDouble E) q) users"
    by (rule bestMatchSpec_None)
  have d: "\<not> list_ex (clears (roundDouble E) q) users \<longrightarrow>
      faceLogin E now (Some q) users = (errorResponse 401 ''Face not recognized'', users)"
    using c by (auto simp: faceLogin_spec)
  show ?thesis using a b c d by blast
qed

lemma score_faceUser: "score rnd q (faceUser i d) = calculateSimilarity rnd q d"
  by (simp add: score_def faceUser_def)

lemma eligible_faceUser: "eligible q (faceUser i d) = (length d = length q)"
  by (simp add: eligible_def faceUser_def)

lemma eligible_demoUser: "\<not> eligible q demoUser"
  by (simp add: eligible_def demoUser_def)

lemma demo_round: "roundDouble demoEnv = Num"
  by (simp add: demoEnv_def)

lemma similarity_far: "calculateSimilarity Num [1, 0, 0, 0] [- 1, 0, 0, 0] = Num 0"
  by (simp add: calculateSimilarity_exact)

lemma similarity_near: "calculateSimilarity Num [1, 0, 0, 0] [1, 0, 0, 0] = Num 1"
  by (simp add: calculateSimilarity_exact)

lemma clears_examples:
  "\<not> clears Num [1, 0, 0, 0] (faceUser 11 [- 1, 0, 0, 0])"
  "clears Num [1, 0, 0, 0] (faceUser 12 [1, 0, 0, 0])"
  "clears Num [1, 0, 0, 0] (faceUser 13 [1, 0, 0, 0])"
  "\<not> clears Num [1, 0, 0, 0] (faceUser 14 [1, 0, 0])"
  "\<not> clears Num [1, 0, 0, 0] demoUser"
  by (simp_all add: clears_def eligible_faceUser eligible_demoUser score_faceUser
      similarity_far similarity_near threshold_def)

lemma bestMatchSpec_example:
  "bestMatchSpec Num [1, 0, 0, 0] faceUsers = Some (faceUser 12 [1, 0, 0, 0])"
  by (simp add: bestMatchSpec_def faceUsers_def clears_examples score_faceUser similarity_near)

theorem best_match_selection_witness:
  "bestMatchSpec (roundDouble demoEnv) [1, 0, 0, 0] faceUsers = Some (faceUser 12 [1, 0, 0, 0]) \<and>
   fst (bestMatchLoop (roundDouble demoEnv) [1, 0, 0, 0] (usersWithFace faceUsers) (None, Num 0)) =
     Some (faceUser 12 [1, 0, 0, 0]) \<and>
   snd (bestMatchLoop (roundDouble demoEnv) [1, 0, 0, 0] (usersWithFace faceUsers) (None, Num 0)) =
     Num 1 \<and>
   code (fst (faceLogin demoEnv 5 (Some [1, 0, 0, 0]) faceUsers)) = 200 \<and>
   faceLogin demoEnv 5 (Some [1, 0, 0, 0]) [faceUser 11 [- 1, 0, 0, 0]] =
     (errorResponse 401 ''Face not recognized'', [faceUser 11 [- 1, 0, 0, 0]])"
proof -
  have n: "\<not> list_ex (clears Num [1, 0, 0, 0]) [faceUser 11 [- 1, 0, 0, 0]]"
    by (simp add: clears_examples)
  have a: "isActive (faceUser 12 [1, 0, 0, 0])" by (simp add: faceUser_def demoUser_def)
  show ?thesis
    using best_match_selection [where q = "[1, 0, 0, 0]" and users = faceUsers
        and u = "faceUser 12 [1, 0, 0, 0]" and E = demoEnv and now = 5]
      best_match_selection [where q = "[1, 0, 0, 0]" and users = "[faceUser 11 [- 1, 0, 0, 0]]"
        and u = "faceUser 12 [1, 0, 0, 0]" and E = demoEnv and now = 5]
    by (simp add: demo_round bestMatchSpec_example n a score_faceUser similarity_near
        successResponse_def clears_examples)
qed

section \<open>Registration and the uniqueness of emails\<close>

lemma registerValidation_Nil:
  "registerValidation E b = [] \<Longrightarrow> isEmail E (reg_email b)"
  by (simp add: registerValidation_def split: if_splits)

lemma findOneByEmail_None: "(findOneByEmail e users = None) = (e \<notin> set (map email users))"
  by (auto simp: findOneByEmail_def find_None_iff)

text \<open>The answers of the route: 400 and nothing stored, or 201 and one account more.\<close>

lemma register_cases:
  "register E now b users = Inr (r, users') \<Longrightarrow>
     (code r = 400 \<and> users' = users \<and>
        (registerValidation E b \<noteq> [] \<or>
         findOneByEmail (normalizeEmail E (reg_email b)) users \<noteq> None)) \<or>
     (code r = 201 \<and> registerValidation E b = [] \<and>
        findOneByEmail (normalizeEmail E (reg_email b)) users = None \<and>
        (\<exists>prefs. users' =
           users @ [hashPassword E (newUser E now b (normalizeEmail E (reg_email b)) prefs users)]))"
  by (auto simp: register_def Let_def validationFailed_def errorResponse_def successResponse_def
      split: list.splits option.splits if_splits)

lemma email_newUser:
  "email (hashPassword E (newUser E now b em prefs users)) = toLowerCase (trim em)"
  by (simp add: newUser_def hashPassword_def)

text \<open>
  The lookup is by the normalised email of the request: when an account has exactly that
  email, the route answers 400 and stores nothing.
\<close>

lemma register_existing:
  assumes "findOneByEmail (normalizeEmail E (reg_email b)) users = Some u"
  shows "\<exists>r. register E now b users = Inr (r, users) \<and> code r = 400"
  using assms
  by (auto simp: register_def Let_def validationFailed_def errorResponse_def split: list.splits)

text \<open>
  The stored emails stay pairwise different, as long as the normalised form of an
  accepted address is in lower case without surrounding white space, so that the schema
  stores it as it was looked up.
\<close>

lemma register_distinct_emails:
  assumes "distinct (map email users)"
    and "\<forall>e. isEmail E e \<longrightarrow> toLowerCase (trim (normalizeEmail E e)) = normalizeEmail E e"
    and "register E now b users = Inr (r, users')"
  shows "distinct (map email users')"
  using register_cases [OF assms(3)]
proof
  assume "code r = 400 \<and> users' = users \<and>
        (registerValidation E b \<noteq> [] \<or>
         findOneByEmail (normalizeEmail E (reg_email b)) users \<noteq> None)"
  then show ?thesis using assms(1) by simp
next
  assume a: "code r = 201 \<and> registerValidation E b = [] \<and>
        findOneByEmail (normalizeEmail E (reg_email b)) users = None \<and>
        (\<exists>prefs. users' =
           users @ [hashPassword E (newUser E now b (normalizeEmail E (reg_email b)) prefs users)])"
  then have "isEmail E (reg_email b)" by (simp add: registerValidation_Nil)
  then have "toLowerCase (trim (normalizeEmail E (reg_email b))) = normalizeEmail E (reg_email b)"
    using assms(2) by simp
  moreover have "normalizeEmail E (reg_email b) \<notin> set (map email users)"
    using a by (simp add: findOneByEmail_None)
  ultimately show ?thesis using a assms(1) by (auto simp: email_newUser)
qed


section \<open>Failed authentication\<close>

lemma loginValidation_Nil:
  "(loginValidation E b = []) = (isEmail E (login_email b) \<and> login_password b \<noteq> [])"
  by (simp add: loginValidation_def)

lemma login_unknown:
  "loginValidation E b = [] \<Longrightarrow> findOneByEmail (normalizeEmail E (login_email b)) users = None \<Longrightarrow>
   login E now b users = (errorResponse 401 ''Invalid credentials'', users)"
  by (simp add: login_def)

lemma login_deactivated:
  "loginValidation E b = [] \<Longrightarrow> findOneByEmail (normalizeEmail E (login_email b)) users = Some u \<Longrightarrow>
   \<not> isActive u \<Longrightarrow>
   login E now b users = (errorResponse 401 ''Account is deactivated'', users)"
  by (simp add: login_def)

lemma login_wrong_password:
  "loginValidation E b = [] \<Longrightarrow> findOneByEmail (normalizeEmail E (login_email b)) users = Some u \<Longrightarrow>
   isActive u \<Longrightarrow> \<not> bcryptCompare E (login_password b) (password u) \<Longrightarrow>
   login E now b users = (errorResponse 401 ''Invalid credentials'', users)"
  by (simp add: login_def)

lemma login_401:
  "code (fst (login E now b users)) = 401 \<Longrightarrow>
   login E now b users = (errorResponse 401 ''Invalid credentials'', users) \<or>
   login E now b users = (errorResponse 401 ''Account is deactivated'', users)"
  by (auto simp: login_def Let_def validationFailed_def successResponse_def errorResponse_def
      split: list.splits option.splits if_splits)

lemma faceLogin_401:
  "code (fst (faceLogin E now body users)) = 401 \<Longrightarrow>
   faceLogin E now body users = (errorResponse 401 ''Face not recognized'', users) \<or>
   faceLogin E now body users = (errorResponse 401 ''Account is deactivated'', users)"
  by (auto simp: faceLogin_def Let_def successResponse_def errorResponse_def
      split: option.splits prod.splits if_splits)

lemma error_messages_differ:
  "(errorResponse 401 ''Invalid credentials'' :: auth_data response) \<noteq> errorResponse 401 ''Account is deactivated''"
  "(errorResponse 401 ''Invalid credentials'' :: auth_data response) \<noteq> errorResponse 401 ''Face not recognized''"
  "(errorResponse 401 ''Face not recognized'' :: auth_data response) \<noteq> errorResponse 401 ''Account is deactivated''"
  by (simp_all add: errorResponse_def)

text \<open>
  Claim C8, as the code has it.  A password login that fails for an unknown email or for
  a wrong password, and a login to a deactivated account, are answered 401 and change
  nothing; so is a face login without a match or to a deactivated account.  An unknown
  email and a wrong password have one and the same response ("Invalid credentials");
  every 401 of password login is that response or "Account is deactivated", every 401 of
  face login is "Face not recognized" or "Account is deactivated", and these three
  responses differ from one another.
\<close>

theorem auth_failure_responses:
  "(loginValidation E b = [] \<and> findOneByEmail (normalizeEmail E (login_email b)) users = None \<longrightarrow>
      login E now b users = (errorResponse 401 ''Invalid credentials'', users)) \<and>
   (loginValidation E b = [] \<and> findOneByEmail (normalizeEmail E (login_email b)) users = Some u \<and>
    isActive u \<and> \<not> bcryptCompare E (login_password b) (password u) \<longrightarrow>
      login E now b users = (errorResponse 401 ''Invalid credentials'', users)) \<and>
   (loginValidation E b = [] \<and> findOneByEmail (normalizeEmail E (login_email b)) users = Some u \<and>
    \<not> isActive u \<longrightarrow>
      login E now b users = (errorResponse 401 ''Account is deactivated'', users)) \<and>
   (bestMatchSpec (roundDouble E) q users = None \<longrightarrow>
      faceLogin E now (Some q) users = (errorResponse 401 ''Face not recognized'', users)) \<and>
   (bestMatchSpec (roundDouble E) q users = Some m \<and> \<not> isActive m \<longrightarrow>
      faceLogin E now (Some q) users = (errorResponse 401 ''Account is deactivated'', users)) \<and>
   (code (fst (login E now b users)) = 401 \<longrightarrow>
      login E now b users = (errorResponse 401 ''Invalid credentials'', users) \<or>
      login E now b users = (errorResponse 401 ''Account is deactivated'', users)) \<and>
   (code (fst (faceLogin E now body users)) = 401 \<longrightarrow>
      faceLogin E now body users = (errorResponse 401 ''Face not recognized'', users) \<or>
      faceLogin E now body users = (errorResponse 401 ''Account is deactivated'', users)) \<and>
   code (errorResponse 401 ''Invalid credentials'' :: auth_data response) = 401 \<and>
   code (errorResponse 401 ''Account is deactivated'' :: auth_data response) = 401 \<and>
   code (errorResponse 401 ''Face not recognized'' :: auth_data response) = 401 \<and>
   (errorResponse 401 ''Invalid credentials'' :: auth_data response) \<noteq> errorResponse 401 ''Account is deactivated'' \<and>
   (errorResponse 401 ''Invalid credentials'' :: auth_data response) \<noteq> errorResponse 401 ''Face not recognized'' \<and>
   (errorResponse 401 ''Face not recognized'' :: auth_data response) \<noteq> errorResponse 401 ''Account is deactivated''"
  using login_unknown [of E b users now] login_wrong_password [of E b users u now]
    login_deactivated [of E b users u now] login_401 [of E now b users]
    faceLogin_401 [of E now body users] error_messages_differ
  by (simp add: faceLogin_spec errorResponse_def)

lemma loginBody_valid:
  "loginValidation demoEnv (loginBody ''zed@example.com'' ''Secret1'') = []"
  "loginValidation demoEnv (loginBody ''ann@example.com'' ''wrong'') = []"
  "loginValidation demoEnv (loginBody ''bob@example.com'' ''Secret1'') = []"
  by (simp_all add: loginValidation_def loginBody_def demoEnv_def isSpace_def)

lemma demo_lookup:
  "findOneByEmail (normalizeEmail demoEnv (login_email (loginBody ''zed@example.com'' ''Secret1''))) authUsers = None"
  "findOneByEmail (normalizeEmail demoEnv (login_email (loginBody ''ann@example.com'' ''wrong''))) authUsers = Some demoUser"
  "findOneByEmail (normalizeEmail demoEnv (login_email (loginBody ''bob@example.com'' ''Secret1''))) authUsers = Some inactiveUser"
  by (simp_all add: findOneByEmail_def loginBody_def demoEnv_def toLowerCase_def toLowerChar_def
      authUsers_def demoUser_def inactiveUser_def)

lemma demo_accounts:
  "isActive demoUser" "\<not> isActive inactiveUser"
  "\<not> bcryptCompare demoEnv (login_password (loginBody ''ann@example.com'' ''wrong'')) (password demoUser)"
  by (simp_all add: demoUser_def inactiveUser_def demoEnv_def loginBody_def)

text \<open>
  Claim C8 as stated fails: with the same password, a login to an unknown email and a
  login to a deactivated account are both answered 401, but the bodies differ
  ("Invalid credentials" and "Account is deactivated").
\<close>

theorem auth_failures_distinguishable:
  "code (fst (login demoEnv 5 (loginBody ''zed@example.com'' ''Secret1'') authUsers)) = 401 \<and>
   code (fst (login demoEnv 5 (loginBody ''bob@example.com'' ''Secret1'') authUsers)) = 401 \<and>
   message (fst (login demoEnv 5 (loginBody ''zed@example.com'' ''Secret1'') authUsers)) =
     Some ''Invalid credentials'' \<and>
   message (fst (login demoEnv 5 (loginBody ''bob@example.com'' ''Secret1'') authUsers)) =
     Some ''Account is deactivated'' \<and>
   fst (login demoEnv 5 (loginBody ''zed@example.com'' ''Secret1'') authUsers) \<noteq>
   fst (login demoEnv 5 (loginBody ''bob@example.com'' ''Secret1'') authUsers)"
  by (simp add: login_unknown [OF loginBody_valid(1) demo_lookup(1)]
      login_deactivated [OF loginBody_valid(3) demo_lookup(3) demo_accounts(2)] errorResponse_def)

theorem auth_failure_responses_witness:
  "login demoEnv 5 (loginBody ''zed@example.com'' ''Secret1'') authUsers =
     (errorResponse 401 ''Invalid credentials'', authUsers) \<and>
   login demoEnv 5 (loginBody ''ann@example.com'' ''wrong'') authUsers =
     (errorResponse 401 ''Invalid credentials'', authUsers) \<and>
   login demoEnv 5 (loginBody ''bob@example.com'' ''Secret1'') authUsers =
     (errorResponse 401 ''Account is deactivated'', authUsers) \<and>
   faceLogin demoEnv 5 (Some [1, 0, 0, 0]) [faceUser 11 [- 1, 0, 0, 0]] =
     (errorResponse 401 ''Face not recognized'', [faceUser 11 [- 1, 0, 0, 0]])"
proof -
  have n: "bestMatchSpec (roundDouble demoEnv) [1, 0, 0, 0] [faceUser 11 [- 1, 0, 0, 0]] = None"
    by (simp add: demo_round bestMatchSpec_def clears_examples)
  have a: "login demoEnv 5 (loginBody ''zed@example.com'' ''Secret1'') authUsers =
     (errorResponse 401 ''Invalid credentials'', authUsers)"
    using auth_failure_responses [where E = demoEnv and b = "loginBody ''zed@example.com'' ''Secret1''"
        and users = authUsers and now = 5]
    by (simp add: loginBody_valid demo_lookup)
  have b: "login demoEnv 5 (loginBody ''ann@example.com'' ''wrong'') authUsers =
     (errorResponse 401 ''Invalid credentials'', authUsers)"
    using auth_failure_responses [where E = demoEnv and b = "loginBody ''ann@example.com'' ''wrong''"
        and users = authUsers and now = 5 and u = demoUser]
    by (simp add: loginBody_valid demo_lookup demo_accounts)
  have c: "login demoEnv 5 (loginBody ''bob@example.com'' ''Secret1'') authUsers =
     (errorResponse 401 ''Account is deactivated'', authUsers)"
    using auth_failure_responses [where E = demoEnv and b = "loginBody ''bob@example.com'' ''Secret1''"
        and users = authUsers and now = 5 and u = inactiveUser]
    by (simp add: loginBody_valid demo_lookup demo_accounts)
  have d: "faceLogin demoEnv 5 (Some [1, 0, 0, 0]) [faceUser 11 [- 1, 0, 0, 0]] =
     (errorResponse 401 ''Face not recognized'', [faceUser 11 [- 1, 0, 0, 0]])"
    using auth_failure_responses [where q = "[1, 0, 0, 0]" and users = "[faceUser 11 [- 1, 0, 0, 0]]"
        and E = demoEnv
        and now = 5]
    by (simp add: n)
  show ?thesis using a b c d by simp
qed

section \<open>The length of stored face descriptors\<close>

lemma descriptorInvariant_saveUser:
  "descriptorInvariant users \<Longrightarrow>
   (case faceDescriptor u of None \<Rightarrow> True | Some d \<Rightarrow> length d = 128) \<Longrightarrow>
   descriptorInvariant (saveUser u users)"
  by (auto simp: descriptorInvariant_def saveUser_def list_all_iff)

lemma findById_uid: "findById i users = Some u \<Longrightarrow> uid u = i \<and> u \<in> set users"
  by (auto simp: findById_def find_Some_iff)

lemma descriptorInvariant_saveUser_iff:
  assumes "descriptorInvariant users" and "findById i users = Some u" and "uid u' = i"
  shows "descriptorInvariant (saveUser u' users) =
           (case faceDescriptor u' of None \<Rightarrow> True | Some d \<Rightarrow> length d = 128)"
proof
  assume "descriptorInvariant (saveUser u' users)"
  moreover have "u' \<in> set (saveUser u' users)"
    using findById_uid [OF assms(2)] assms(3) by (force simp: saveUser_def)
  ultimately show "case faceDescriptor u' of None \<Rightarrow> True | Some d \<Rightarrow> length d = 128"
    by (simp add: descriptorInvariant_def list_all_iff)
next
  assume "case faceDescriptor u' of None \<Rightarrow> True | Some d \<Rightarrow> length d = 128"
  then show "descriptorInvariant (saveUser u' users)"
    using assms(1) by (rule descriptorInvariant_saveUser [rotated])
qed

lemma length_simulated: "length (fd_descriptor (simulateFaceDetection E)) = 128"
  by (simp add: simulateFaceDetection_def)

lemma faceRecognitionRegister_invariant:
  "descriptorInvariant users \<Longrightarrow> faceRecognitionRegister E i file users = Inr (r, users') \<Longrightarrow>
   descriptorInvariant users'"
  by (auto simp: faceRecognitionRegister_def Let_def length_simulated
      intro!: descriptorInvariant_saveUser split: option.splits if_splits)

lemma userFaceRegister_invariant:
  assumes "descriptorInvariant users" and "userFaceRegister i (Some d) users = Inr (r, users')"
  shows "descriptorInvariant users' = (length d = 128)"
proof -
  from assms(2) obtain u where u: "findById i users = Some u"
    and s: "users' = saveUser (u\<lparr>faceDescriptor := Some d\<rparr>) users"
    by (auto simp: userFaceRegister_def Let_def split: option.splits)
  have "uid (u\<lparr>faceDescriptor := Some d\<rparr>) = i" using findById_uid [OF u] by simp
  from descriptorInvariant_saveUser_iff [OF assms(1) u this] show ?thesis by (simp add: s)
qed

lemma register_invariant:
  assumes "descriptorInvariant users" and "register E now b users = Inr (r, users')" and "code r = 201"
  shows "descriptorInvariant users' =
           (case reg_faceDescriptor b of None \<Rightarrow> True | Some d \<Rightarrow> length d = 128)"
proof -
  from register_cases [OF assms(2)] assms(3)
  obtain prefs where
    "users' = users @ [hashPassword E (newUser E now b (normalizeEmail E (reg_email b)) prefs users)]"
    by auto
  then show ?thesis using assms(1)
    by (simp add: descriptorInvariant_def newUser_def hashPassword_def)
qed

text \<open>
  Claim C7, as the code has it.  In a collection whose stored descriptors all have 128
  components, POST /api/face-recognition/register keeps that so: it stores the 128
  numbers of \<^verbatim>\<open>simulateFaceDetection\<close>.  POST /api/user/face-register and registration
  store the array of the request as it is: after them every stored descriptor has 128
  components exactly when the array of the request has (or, for registration, when the
  request has none).
\<close>

theorem descriptor_length_by_route:
  assumes "descriptorInvariant users"
  shows "(faceRecognitionRegister E i file users = Inr (r1, users1) \<longrightarrow> descriptorInvariant users1) \<and>
         (userFaceRegister i (Some d) users = Inr (r2, users2) \<longrightarrow>
            descriptorInvariant users2 = (length d = 128)) \<and>
         (register E now b users = Inr (r3, users3) \<and> code r3 = 201 \<longrightarrow>
            descriptorInvariant users3 =
              (case reg_faceDescriptor b of None \<Rightarrow> True | Some d \<Rightarrow> length d = 128))"
  using faceRecognitionRegister_invariant [OF assms] userFaceRegister_invariant [OF assms]
    register_invariant [OF assms]
  by blast

lemma demo_descriptorInvariant: "descriptorInvariant [demoUser]"
  by (simp add: descriptorInvariant_def demoUser_def)

lemma demo_findById: "findById 7 [demoUser] = Some demoUser"
  by (simp add: findById_def demoUser_def)

lemma userFaceRegister_found:
  "findById i users = Some u \<Longrightarrow>
   userFaceRegister i (Some d) users =
     Inr (successResponse 200 (Some ''Face registered successfully'')
            (profileView (u\<lparr>faceDescriptor := Some d\<rparr>)),
          saveUser (u\<lparr>faceDescriptor := Some d\<rparr>) users)"
  by (simp add: userFaceRegister_def Let_def)

lemma count_simulated: "fd_count (simulateFaceDetection E) = 1"
  by (simp add: simulateFaceDetection_def)

lemma faceRecognitionRegister_found:
  "findById i users = Some u \<Longrightarrow>
   \<exists>r. faceRecognitionRegister E i (Some path) users =
     Inr (r, saveUser (u\<lparr>faceDescriptor := Some (fd_descriptor (simulateFaceDetection E)),
                         avatar := Some path\<rparr>) users)"
  by (simp add: faceRecognitionRegister_def Let_def count_simulated)

lemma demo_saveUser: "uid u = 7 \<Longrightarrow> saveUser u [demoUser] = [u]"
  by (simp add: saveUser_def demoUser_def)

text \<open>
  Claim C7 as stated fails: POST /api/user/face-register with a descriptor of three
  components is answered 200 and stores it, in a collection that had the invariant.
\<close>

theorem descriptor_invariant_broken:
  "descriptorInvariant [demoUser] \<and>
   userFaceRegister 7 (Some [1, 2, 3]) [demoUser] =
     Inr (successResponse 200 (Some ''Face registered successfully'')
            (profileView (demoUser\<lparr>faceDescriptor := Some [1, 2, 3]\<rparr>)),
          [demoUser\<lparr>faceDescriptor := Some [1, 2, 3]\<rparr>]) \<and>
   \<not> descriptorInvariant [demoUser\<lparr>faceDescriptor := Some [1, 2, 3]\<rparr>]"
proof -
  have u: "uid (demoUser\<lparr>faceDescriptor := Some [1, 2, 3]\<rparr>) = 7" by (simp add: demoUser_def)
  have d: "faceDescriptor demoUser = None" by (simp add: demoUser_def)
  show ?thesis
    by (simp add: userFaceRegister_found [OF demo_findById] demo_saveUser [OF u]
        descriptorInvariant_def d)
qed

theorem descriptor_length_by_route_witness:
  "descriptorInvariant [demoUser] \<and>
   (\<exists>r users1. faceRecognitionRegister demoEnv 7 (Some ''face.png'') [demoUser] = Inr (r, users1) \<and>
       descriptorInvariant users1) \<and>
   (\<exists>r users2. userFaceRegister 7 (Some (replicate 128 0)) [demoUser] = Inr (r, users2) \<and>
       descriptorInvariant users2) \<and>
   (\<exists>r users2. userFaceRegister 7 (Some [1, 2, 3]) [demoUser] = Inr (r, users2) \<and>
       \<not> descriptorInvariant users2)"
proof -
  obtain r1 users1 where a: "faceRecognitionRegister demoEnv 7 (Some ''face.png'') [demoUser] = Inr (r1, users1)"
    using faceRecognitionRegister_found [OF demo_findById] by blast
  obtain r2 users2 where b: "userFaceRegister 7 (Some (replicate 128 0)) [demoUser] = Inr (r2, users2)"
    using userFaceRegister_found [OF demo_findById] by blast
  obtain r3 users3 where c: "userFaceRegister 7 (Some [1, 2, 3]) [demoUser] = Inr (r3, users3)"
    using userFaceRegister_found [OF demo_findById] by blast
  have "descriptorInvariant users1"
    using descriptor_length_by_route [OF demo_descriptorInvariant, of demoEnv 7 "Some ''face.png''" r1 users1] a
    by simp
  moreover have "descriptorInvariant users2"
    using descriptor_length_by_route [OF demo_descriptorInvariant,
        where i = 7 and d = "replicate 128 0" and ?r2.0 = r2 and ?users2.0 = users2] b
    by simp
  moreover have "\<not> descriptorInvariant users3"
    using descriptor_length_by_route [OF demo_descriptorInvariant,
        where i = 7 and d = "[1, 2, 3]" and ?r2.0 = r3 and ?users2.0 = users3] c
    by simp
  ultimately show ?thesis using a b c demo_descriptorInvariant by blast
qed

end
